theory Spec2Isabelle
  imports Main
begin

section \<open>JavaScript values of the service layer\<close>

text \<open>
  The two service modules (\<^verbatim>\<open>activityService.js\<close>, \<^verbatim>\<open>teacherService.js\<close>) only build
  object literals, read properties, test truthiness and walk arrays. The values they
  handle are modelled by one datatype. Numbers are the integers (the identifiers, the
  paging numbers and the array lengths of the source) together with \<open>NaN\<close>. An object is
  its list of own properties in insertion order; there are no function values.
\<close>

datatype jsval =
    Undefined
  | Null
  | Bool bool
  | Num int
  | NaN
  | Str string
  | Arr "jsval list"
  | Obj "(string \<times> jsval) list"

text \<open>Truthiness, as tested by \<^verbatim>\<open>if (x)\<close>, \<^verbatim>\<open>!x\<close> and \<^verbatim>\<open>x || y\<close>.\<close>

fun truthy :: "jsval \<Rightarrow> bool" where
  "truthy Undefined = False"
| "truthy Null = False"
| "truthy (Bool b) = b"
| "truthy (Num n) = (n \<noteq> 0)"
| "truthy NaN = False"
| "truthy (Str s) = (s \<noteq> [])"
| "truthy (Arr xs) = True"
| "truthy (Obj kvs) = True"

fun nullish :: "jsval \<Rightarrow> bool" where
  "nullish Undefined = True"
| "nullish Null = True"
| "nullish v = False"

text \<open>\<^verbatim>\<open>a || b\<close>\<close>

definition js_or :: "jsval \<Rightarrow> jsval \<Rightarrow> jsval" where
  "js_or a b = (if truthy a then a else b)"

text \<open>
  Reading the property \<open>k\<close> of a value that is neither \<^verbatim>\<open>null\<close> nor \<^verbatim>\<open>undefined\<close>:
  an own property of an object, the \<^verbatim>\<open>length\<close> of an array or of a string, and
  \<^verbatim>\<open>undefined\<close> for every other name the services read.
\<close>

fun read_prop :: "jsval \<Rightarrow> string \<Rightarrow> jsval" where
  "read_prop (Obj kvs) k = (case map_of kvs k of Some v \<Rightarrow> v | None \<Rightarrow> Undefined)"
| "read_prop (Arr xs) k = (if k = ''length'' then Num (int (length xs)) else Undefined)"
| "read_prop (Str s) k = (if k = ''length'' then Num (int (length s)) else Undefined)"
| "read_prop v k = Undefined"

text \<open>\<^verbatim>\<open>a?.k\<close>\<close>

definition js_opt :: "jsval \<Rightarrow> string \<Rightarrow> jsval" where
  "js_opt v k = (if nullish v then Undefined else read_prop v k)"

subsection \<open>The host: \<^verbatim>\<open>parseInt\<close> and the printing of numbers\<close>

text \<open>
  Two built-ins of the language are used by the services and are not code of the
  repository: \<^verbatim>\<open>parseInt\<close>, and the conversion of a number to a string (inside
  \<^verbatim>\<open>String(v)\<close>, template literals and \<^verbatim>\<open>new Error(v)\<close>). Both depend on the double
  precision arithmetic of the engine, and \<^verbatim>\<open>parseInt\<close> is implementation-defined on long
  digit strings. They are parameters of the model: every property below is proved for
  every host.
\<close>

record host =
  parseInt :: "jsval \<Rightarrow> jsval"
  numberToString :: "int \<Rightarrow> string"

fun join_comma :: "string list \<Rightarrow> string" where
  "join_comma [] = []"
| "join_comma [s] = s"
| "join_comma (s # t # ss) = s @ '','' @ join_comma (t # ss)"

text \<open>
  \<^verbatim>\<open>String(v)\<close>, given the printing of numbers. An array joins its elements with commas,
  \<^verbatim>\<open>null\<close> and \<^verbatim>\<open>undefined\<close> elements giving the empty string; a plain object gives
  \<^verbatim>\<open>[object Object]\<close>.
\<close>

fun to_string :: "(int \<Rightarrow> string) \<Rightarrow> jsval \<Rightarrow> string" where
  "to_string pr Undefined = ''undefined''"
| "to_string pr Null = ''null''"
| "to_string pr (Bool b) = (if b then ''true'' else ''false'')"
| "to_string pr (Num n) = pr n"
| "to_string pr NaN = ''NaN''"
| "to_string pr (Str s) = s"
| "to_string pr (Arr xs) = join_comma (map (\<lambda>x. if nullish x then [] else to_string pr x) xs)"
| "to_string pr (Obj kvs) = ''[object Object]''"

definition toString :: "host \<Rightarrow> jsval \<Rightarrow> string" where
  "toString h v = to_string (numberToString h) v"

subsection \<open>A host for the examples\<close>

text \<open>
  The examples below are evaluated on one concrete host. It prints an integer in decimal
  and reads the integer at the front of the string form of its argument: leading ASCII
  white space and one sign are skipped, a \<^verbatim>\<open>0x\<close> prefix selects base 16, the longest run
  of digits is read, and with no digit the answer is \<open>NaN\<close>. JavaScript agrees with it
  on the integers of magnitude below \<open>2\<^sup>5\<^sup>3\<close> and on the ASCII strings that denote them,
  which is where the examples use it; it is not a description of the built-ins elsewhere
  (no rounding to a double, no exponent notation, no Unicode white space).
\<close>

fun show_nat :: "nat \<Rightarrow> string" where
  "show_nat n =
     (if n < 10 then [''0123456789'' ! n]
      else show_nat (n div 10) @ [''0123456789'' ! (n mod 10)])"

declare show_nat.simps [simp del]

definition show_int :: "int \<Rightarrow> string" where
  "show_int i = (if i < 0 then CHR ''-'' # show_nat (nat (- i)) else show_nat (nat i))"

definition is_space :: "char \<Rightarrow> bool" where
  "is_space c = (c \<in> set [CHR '' '', CHR 0x09, CHR 0x0A, CHR 0x0B, CHR 0x0C, CHR 0x0D])"

definition digit_val :: "char \<Rightarrow> nat option" where
  "digit_val c =
     (let n = of_char c :: nat in
      if 48 \<le> n \<and> n \<le> 57 then Some (n - 48)
      else if 97 \<le> n \<and> n \<le> 122 then Some (n - 87)
      else if 65 \<le> n \<and> n \<le> 90 then Some (n - 55)
      else None)"

definition is_digit :: "nat \<Rightarrow> char \<Rightarrow> bool" where
  "is_digit radix c = (case digit_val c of Some d \<Rightarrow> d < radix | None \<Rightarrow> False)"

definition digits_val :: "nat \<Rightarrow> string \<Rightarrow> nat" where
  "digits_val radix ds = foldl (\<lambda>acc c. acc * radix + the (digit_val c)) 0 ds"

definition leading_integer :: "jsval \<Rightarrow> jsval" where
  "leading_integer v =
     (let s = dropWhile is_space (to_string show_int v);
          neg = (take 1 s = ''-'');
          s1 = (if take 1 s = ''-'' \<or> take 1 s = ''+'' then drop 1 s else s);
          hex = (take 2 s1 = ''0x'' \<or> take 2 s1 = ''0X'');
          radix = (if hex then 16 else 10);
          s2 = (if hex then drop 2 s1 else s1);
          ds = takeWhile (is_digit radix) s2
      in if ds = [] then NaN
         else Num ((if neg then - 1 else 1) * int (digits_val radix ds)))"

definition example_host :: host where
  "example_host = \<lparr> parseInt = leading_integer, numberToString = show_int \<rparr>"

section \<open>Effects: transport calls, notifications, exceptions\<close>

text \<open>
  A service method contacts the remote SDK (\<^verbatim>\<open>apperClient.fetchRecords\<close> and its
  siblings), shows toasts, writes to the console, and either returns a value or throws.
  The SDK is outside the repository: it is a parameter, a function from the request to
  either a thrown value (\<open>Inl\<close>, a rejected promise) or the response (\<open>Inr\<close>).
\<close>

datatype request =
    FetchRecords string jsval
  | GetRecordById string jsval jsval
  | CreateRecord string jsval
  | UpdateRecord string jsval
  | DeleteRecord string jsval

datatype event =
    Call request
  | ToastError jsval
  | ToastSuccess jsval
  | ConsoleError "jsval list"

type_synonym transport = "request \<Rightarrow> jsval + jsval"

text \<open>
  A computation is the list of events it produced, in order, and its completion:
  \<open>Inl e\<close> when it threw \<open>e\<close>, \<open>Inr v\<close> when it returned \<open>v\<close>.
\<close>

type_synonym 'a js = "event list \<times> (jsval + 'a)"

definition js_return :: "'a \<Rightarrow> 'a js" where
  "js_return v = ([], Inr v)"

definition js_throw :: "jsval \<Rightarrow> 'a js" where
  "js_throw e = ([], Inl e)"

definition js_bind :: "'a js \<Rightarrow> ('a \<Rightarrow> 'b js) \<Rightarrow> 'b js" where
  "js_bind m f =
     (case m of
        (es, Inl e) \<Rightarrow> (es, Inl e)
      | (es, Inr v) \<Rightarrow> (case f v of (es', r) \<Rightarrow> (es @ es', r)))"

text \<open>\<^verbatim>\<open>try { m } catch (error) { h error }\<close>\<close>

definition js_catch :: "'a js \<Rightarrow> (jsval \<Rightarrow> 'a js) \<Rightarrow> 'a js" where
  "js_catch m h =
     (case m of
        (es, Inl e) \<Rightarrow> (case h e of (es', r) \<Rightarrow> (es @ es', r))
      | (es, Inr v) \<Rightarrow> (es, Inr v))"

definition emit :: "event \<Rightarrow> unit js" where
  "emit ev = ([ev], Inr ())"

definition toast_error :: "jsval \<Rightarrow> unit js" where
  "toast_error m = emit (ToastError m)"

definition toast_success :: "jsval \<Rightarrow> unit js" where
  "toast_success m = emit (ToastSuccess m)"

definition console_error :: "jsval list \<Rightarrow> unit js" where
  "console_error args = emit (ConsoleError args)"

definition call :: "transport \<Rightarrow> request \<Rightarrow> jsval js" where
  "call tr req = ([Call req], tr req)"

text \<open>
  The error objects: \<^verbatim>\<open>new Error(m)\<close> has the message \<^verbatim>\<open>String(m)\<close>, and none of its
  own (the empty one of the prototype) when \<open>m\<close> is \<^verbatim>\<open>undefined\<close>. The engine's
  \<^verbatim>\<open>TypeError\<close> for a property read on \<^verbatim>\<open>null\<close> or \<^verbatim>\<open>undefined\<close>, or for calling
  what is not a function, carries an engine-specific text, fixed here.
\<close>

definition new_Error :: "host \<Rightarrow> jsval \<Rightarrow> jsval" where
  "new_Error h m =
     Obj [(''name'', Str ''Error''),
          (''message'', Str (if m = Undefined then [] else toString h m))]"

definition TypeError :: jsval where
  "TypeError = Obj [(''name'', Str ''TypeError''), (''message'', Str ''not an object or function'')]"

text \<open>\<^verbatim>\<open>v.k\<close>: throws on \<^verbatim>\<open>null\<close> and \<^verbatim>\<open>undefined\<close>.\<close>

definition js_get :: "jsval \<Rightarrow> string \<Rightarrow> jsval js" where
  "js_get v k = (if nullish v then js_throw TypeError else js_return (read_prop v k))"

text \<open>
  \<^verbatim>\<open>v.filter(p)\<close>: the elements are tested in order, the test may throw; a value that is
  not an array has no \<^verbatim>\<open>filter\<close> to call.
\<close>

primrec js_filter_list :: "(jsval \<Rightarrow> jsval js) \<Rightarrow> jsval list \<Rightarrow> (jsval list) js" where
  "js_filter_list p [] = js_return []"
| "js_filter_list p (x # xs) =
     js_bind (p x) (\<lambda>keep.
     js_bind (js_filter_list p xs) (\<lambda>ys.
     js_return (if truthy keep then x # ys else ys)))"

definition js_filter :: "jsval \<Rightarrow> (jsval \<Rightarrow> jsval js) \<Rightarrow> (jsval list) js" where
  "js_filter v p =
     (if nullish v then js_throw TypeError
      else case v of Arr xs \<Rightarrow> js_filter_list p xs | _ \<Rightarrow> js_throw TypeError)"

text \<open>\<^verbatim>\<open>v.forEach(f)\<close>: stops at the first element on which \<open>f\<close> throws.\<close>

primrec js_each :: "(jsval \<Rightarrow> unit js) \<Rightarrow> jsval list \<Rightarrow> unit js" where
  "js_each f [] = js_return ()"
| "js_each f (x # xs) = js_bind (f x) (\<lambda>_. js_each f xs)"

definition js_forEach :: "jsval \<Rightarrow> (jsval \<Rightarrow> unit js) \<Rightarrow> unit js" where
  "js_forEach v f =
     (if nullish v then js_throw TypeError
      else case v of Arr xs \<Rightarrow> js_each f xs | _ \<Rightarrow> js_throw TypeError)"

text \<open>\<^verbatim>\<open>xs[0]\<close> on an array.\<close>

definition first_elem :: "jsval list \<Rightarrow> jsval" where
  "first_elem xs = (case xs of [] \<Rightarrow> Undefined | x # _ \<Rightarrow> x)"

text \<open>What a caller observes of a call: the notifications, the requests, the completion.\<close>

fun is_toast :: "event \<Rightarrow> bool" where
  "is_toast (ToastError m) = True"
| "is_toast (ToastSuccess m) = True"
| "is_toast ev = False"

definition notifications :: "'a js \<Rightarrow> event list" where
  "notifications m = filter is_toast (fst m)"

fun requests_of :: "event list \<Rightarrow> request list" where
  "requests_of [] = []"
| "requests_of (Call r # es) = r # requests_of es"
| "requests_of (ev # es) = requests_of es"

definition requests :: "'a js \<Rightarrow> request list" where
  "requests m = requests_of (fst m)"

definition outcome :: "'a js \<Rightarrow> jsval + 'a" where
  "outcome m = snd m"

section \<open>activityService.js\<close>

definition activity_tableName :: string where
  "activity_tableName = ''activity_c''"

definition field :: "string \<Rightarrow> jsval" where
  "field n = Obj [(''field'', Obj [(''Name'', Str n)])]"

text \<open>
  The argument of \<^verbatim>\<open>console.error\<close> in the \<^verbatim>\<open>catch\<close> blocks of this module,
  \<^verbatim>\<open>error?.response?.data?.message || error.message\<close>: the second operand reads a
  property of the caught value itself.
\<close>

definition activity_catch_message :: "jsval \<Rightarrow> jsval js" where
  "activity_catch_message error =
     (let m = js_opt (js_opt (js_opt error ''response'') ''data'') ''message''
      in if truthy m then js_return m else js_get error ''message'')"

definition activity_getAll_params :: jsval where
  "activity_getAll_params =
     Obj [(''fields'',
             Arr [field ''Name'', field ''Tags'', field ''subject_c'', field ''description_c'',
                  field ''status_c'', field ''priority_c'', field ''due_date_c'',
                  field ''CreatedOn'', field ''ModifiedOn'']),
          (''orderBy'', Arr [Obj [(''fieldName'', Str ''ModifiedOn''), (''sorttype'', Str ''DESC'')]]),
          (''pagingInfo'', Obj [(''limit'', Num 100), (''offset'', Num 0)])]"

definition activity_getAll :: "transport \<Rightarrow> jsval js" where
  "activity_getAll tr =
     js_catch
       (js_bind (call tr (FetchRecords activity_tableName activity_getAll_params)) (\<lambda>response.
        js_bind (js_get response ''success'') (\<lambda>success.
        if \<not> truthy success then
          js_bind (js_get response ''message'') (\<lambda>message.
          js_bind (console_error [Str ''Failed to fetch activities:'', message]) (\<lambda>_.
          js_bind (toast_error message) (\<lambda>_.
          js_return (Arr []))))
        else
          js_bind (js_get response ''data'') (\<lambda>data.
          js_return (js_or data (Arr []))))))
       (\<lambda>error.
        js_bind (activity_catch_message error) (\<lambda>m.
        js_bind (console_error [Str ''Error fetching activities:'', m]) (\<lambda>_.
        js_bind (toast_error (Str ''Failed to load activities'')) (\<lambda>_.
        js_return (Arr [])))))"

definition activity_getById_params :: jsval where
  "activity_getById_params =
     Obj [(''fields'',
             Arr [field ''Name'', field ''Tags'', field ''subject_c'', field ''description_c'',
                  field ''status_c'', field ''priority_c'', field ''due_date_c''])]"

definition activity_getById :: "host \<Rightarrow> transport \<Rightarrow> jsval \<Rightarrow> jsval js" where
  "activity_getById h tr ident =
     js_catch
       (js_bind (call tr (GetRecordById activity_tableName ident activity_getById_params)) (\<lambda>response.
        js_bind (js_get response ''success'') (\<lambda>success.
        if \<not> truthy success then
          js_bind (js_get response ''message'') (\<lambda>message.
          js_bind (console_error [Str (''Failed to fetch activity '' @ toString h ident @ '':''), message]) (\<lambda>_.
          js_bind (toast_error message) (\<lambda>_.
          js_return Null)))
        else
          js_get response ''data'')))
       (\<lambda>error.
        js_bind (activity_catch_message error) (\<lambda>m.
        js_bind (console_error [Str (''Error fetching activity '' @ toString h ident @ '':''), m]) (\<lambda>_.
        js_bind (toast_error (Str ''Failed to load activity'')) (\<lambda>_.
        js_return Null))))"

text \<open>
  The callback given to \<^verbatim>\<open>failed.forEach\<close> in \<^verbatim>\<open>create\<close> and in \<^verbatim>\<open>update\<close> (the same
  text in both): one toast for each entry of \<^verbatim>\<open>record.errors\<close>, with the text
  \<^verbatim>\<open>`${error.fieldLabel}: ${error.message}`\<close>, then one for \<^verbatim>\<open>record.message\<close>.
\<close>

definition activity_toast_field_error :: "host \<Rightarrow> jsval \<Rightarrow> unit js" where
  "activity_toast_field_error h error =
     js_bind (js_get error ''fieldLabel'') (\<lambda>fieldLabel.
     js_bind (js_get error ''message'') (\<lambda>message.
     toast_error (Str (toString h fieldLabel @ '': '' @ toString h message))))"

definition activity_report_failed :: "host \<Rightarrow> jsval \<Rightarrow> unit js" where
  "activity_report_failed h record =
     js_bind (js_get record ''errors'') (\<lambda>errors.
     js_bind (if truthy errors then js_forEach errors (activity_toast_field_error h)
              else js_return ()) (\<lambda>_.
     js_bind (js_get record ''message'') (\<lambda>message.
     if truthy message then toast_error message else js_return ())))"

text \<open>The callback of \<^verbatim>\<open>delete\<close>: only \<^verbatim>\<open>record.message\<close>.\<close>

definition activity_report_failed_delete :: "jsval \<Rightarrow> unit js" where
  "activity_report_failed_delete record =
     js_bind (js_get record ''message'') (\<lambda>message.
     if truthy message then toast_error message else js_return ())"

text \<open>The two filters, \<^verbatim>\<open>r => r.success\<close> and \<^verbatim>\<open>r => !r.success\<close>.\<close>

definition is_success :: "jsval \<Rightarrow> jsval js" where
  "is_success r = js_get r ''success''"

definition is_failure :: "jsval \<Rightarrow> jsval js" where
  "is_failure r = js_bind (js_get r ''success'') (\<lambda>s. js_return (Bool (\<not> truthy s)))"

definition activity_create :: "host \<Rightarrow> transport \<Rightarrow> jsval \<Rightarrow> jsval js" where
  "activity_create h tr activityData =
     js_catch
       (js_bind (js_get activityData ''Name'') (\<lambda>v_Name.
        js_bind (js_get activityData ''subject_c'') (\<lambda>v_subject.
        js_bind (js_get activityData ''description_c'') (\<lambda>v_description.
        js_bind (js_get activityData ''status_c'') (\<lambda>v_status.
        js_bind (js_get activityData ''priority_c'') (\<lambda>v_priority.
        js_bind (js_get activityData ''due_date_c'') (\<lambda>v_due_date.
        js_bind (js_get activityData ''Tags'') (\<lambda>v_Tags.
        let formattedData =
              Obj [(''Name'', v_Name),
                   (''subject_c'', v_subject),
                   (''description_c'', v_description),
                   (''status_c'', v_status),
                   (''priority_c'', v_priority),
                   (''due_date_c'', v_due_date),
                   (''Tags'', js_or v_Tags (Str []))];
            params = Obj [(''records'', Arr [formattedData])]
        in
        js_bind (call tr (CreateRecord activity_tableName params)) (\<lambda>response.
        js_bind (js_get response ''success'') (\<lambda>success.
        if \<not> truthy success then
          js_bind (js_get response ''message'') (\<lambda>message.
          js_bind (console_error [Str ''Failed to create activity:'', message]) (\<lambda>_.
          js_bind (toast_error message) (\<lambda>_.
          js_return Null)))
        else
          js_bind (js_get response ''results'') (\<lambda>results.
          if truthy results then
            js_bind (js_filter results is_success) (\<lambda>successful.
            js_bind (js_filter results is_failure) (\<lambda>failed.
            if length failed > 0 then
              js_bind (console_error [Str ''Failed to create activity:'', Arr failed]) (\<lambda>_.
              js_bind (js_each (activity_report_failed h) failed) (\<lambda>_.
              js_return Null))
            else if length successful > 0 then
              js_bind (toast_success (Str ''Activity created successfully'')) (\<lambda>_.
              js_get (first_elem successful) ''data'')
            else js_return Null))
          else js_return Null)))))))))))
       (\<lambda>error.
        js_bind (activity_catch_message error) (\<lambda>m.
        js_bind (console_error [Str ''Error creating activity:'', m]) (\<lambda>_.
        js_bind (toast_error (Str ''Failed to create activity'')) (\<lambda>_.
        js_return Null))))"

definition activity_update :: "host \<Rightarrow> transport \<Rightarrow> jsval \<Rightarrow> jsval \<Rightarrow> jsval js" where
  "activity_update h tr ident activityData =
     js_catch
       (js_bind (js_get activityData ''Name'') (\<lambda>v_Name.
        js_bind (js_get activityData ''subject_c'') (\<lambda>v_subject.
        js_bind (js_get activityData ''description_c'') (\<lambda>v_description.
        js_bind (js_get activityData ''status_c'') (\<lambda>v_status.
        js_bind (js_get activityData ''priority_c'') (\<lambda>v_priority.
        js_bind (js_get activityData ''due_date_c'') (\<lambda>v_due_date.
        js_bind (js_get activityData ''Tags'') (\<lambda>v_Tags.
        let formattedData =
              Obj [(''Id'', parseInt h ident),
                   (''Name'', v_Name),
                   (''subject_c'', v_subject),
                   (''description_c'', v_description),
                   (''status_c'', v_status),
                   (''priority_c'', v_priority),
                   (''due_date_c'', v_due_date),
                   (''Tags'', js_or v_Tags (Str []))];
            params = Obj [(''records'', Arr [formattedData])]
        in
        js_bind (call tr (UpdateRecord activity_tableName params)) (\<lambda>response.
        js_bind (js_get response ''success'') (\<lambda>success.
        if \<not> truthy success then
          js_bind (js_get response ''message'') (\<lambda>message.
          js_bind (console_error [Str ''Failed to update activity:'', message]) (\<lambda>_.
          js_bind (toast_error message) (\<lambda>_.
          js_return Null)))
        else
          js_bind (js_get response ''results'') (\<lambda>results.
          if truthy results then
            js_bind (js_filter results is_success) (\<lambda>successful.
            js_bind (js_filter results is_failure) (\<lambda>failed.
            if length failed > 0 then
              js_bind (console_error [Str ''Failed to update activity:'', Arr failed]) (\<lambda>_.
              js_bind (js_each (activity_report_failed h) failed) (\<lambda>_.
              js_return Null))
            else if length successful > 0 then
              js_bind (toast_success (Str ''Activity updated successfully'')) (\<lambda>_.
              js_get (first_elem successful) ''data'')
            else js_return Null))
          else js_return Null)))))))))))
       (\<lambda>error.
        js_bind (activity_catch_message error) (\<lambda>m.
        js_bind (console_error [Str ''Error updating activity:'', m]) (\<lambda>_.
        js_bind (toast_error (Str ''Failed to update activity'')) (\<lambda>_.
        js_return Null))))"

definition activity_delete :: "host \<Rightarrow> transport \<Rightarrow> jsval \<Rightarrow> jsval js" where
  "activity_delete h tr ident =
     js_catch
       (let params = Obj [(''RecordIds'', Arr [parseInt h ident])] in
        js_bind (call tr (DeleteRecord activity_tableName params)) (\<lambda>response.
        js_bind (js_get response ''success'') (\<lambda>success.
        if \<not> truthy success then
          js_bind (js_get response ''message'') (\<lambda>message.
          js_bind (console_error [Str ''Failed to delete activity:'', message]) (\<lambda>_.
          js_bind (toast_error message) (\<lambda>_.
          js_return (Bool False))))
        else
          js_bind (js_get response ''results'') (\<lambda>results.
          if truthy results then
            js_bind (js_filter results is_success) (\<lambda>successful.
            js_bind (js_filter results is_failure) (\<lambda>failed.
            if length failed > 0 then
              js_bind (console_error [Str ''Failed to delete activity:'', Arr failed]) (\<lambda>_.
              js_bind (js_each activity_report_failed_delete failed) (\<lambda>_.
              js_return (Bool False)))
            else if length successful > 0 then
              js_bind (toast_success (Str ''Activity deleted successfully'')) (\<lambda>_.
              js_return (Bool True))
            else js_return (Bool False)))
          else js_return (Bool False)))))
       (\<lambda>error.
        js_bind (activity_catch_message error) (\<lambda>m.
        js_bind (console_error [Str ''Error deleting activity:'', m]) (\<lambda>_.
        js_bind (toast_error (Str ''Failed to delete activity'')) (\<lambda>_.
        js_return (Bool False)))))"

section \<open>teacherService.js\<close>

text \<open>
  The argument of \<^verbatim>\<open>console.error\<close> in the \<^verbatim>\<open>catch\<close> blocks of this module,
  \<^verbatim>\<open>error?.response?.data?.message || error\<close>.
\<close>

definition teacher_catch_message :: "jsval \<Rightarrow> jsval" where
  "teacher_catch_message error =
     js_or (js_opt (js_opt (js_opt error ''response'') ''data'') ''message'') error"

definition teacher_getAll_params :: jsval where
  "teacher_getAll_params =
     Obj [(''fields'',
             Arr [field ''Id'', field ''name_c'', field ''email_c'', field ''department_c'']),
          (''orderBy'', Arr [Obj [(''fieldName'', Str ''name_c''), (''sorttype'', Str ''ASC'')]]),
          (''pagingInfo'', Obj [(''limit'', Num 100), (''offset'', Num 0)])]"

definition teacher_getAll :: "transport \<Rightarrow> jsval js" where
  "teacher_getAll tr =
     js_catch
       (js_bind (call tr (FetchRecords ''teacher_c'' teacher_getAll_params)) (\<lambda>response.
        if \<not> truthy (js_opt (js_opt response ''data'') ''length'') then js_return (Arr [])
        else js_get response ''data''))
       (\<lambda>error.
        js_bind (console_error [Str ''Error fetching teachers:'', teacher_catch_message error]) (\<lambda>_.
        js_throw error))"

definition teacher_getById_params :: jsval where
  "teacher_getById_params =
     Obj [(''fields'',
             Arr [field ''Id'', field ''name_c'', field ''email_c'', field ''department_c''])]"

definition teacher_getById :: "host \<Rightarrow> transport \<Rightarrow> jsval \<Rightarrow> jsval js" where
  "teacher_getById h tr teacherId =
     js_catch
       (js_bind (call tr (GetRecordById ''teacher_c'' teacherId teacher_getById_params)) (\<lambda>response.
        if \<not> truthy (js_opt response ''data'') then js_return Null
        else js_get response ''data''))
       (\<lambda>error.
        js_bind (console_error [Str (''Error fetching teacher '' @ toString h teacherId @ '':''),
                                teacher_catch_message error]) (\<lambda>_.
        js_throw error))"

text \<open>
  The callback given to \<^verbatim>\<open>failed.forEach\<close> in \<^verbatim>\<open>create\<close>, \<^verbatim>\<open>update\<close> and \<^verbatim>\<open>delete\<close>
  (the same text in the three): \<^verbatim>\<open>if (record.message) throw new Error(record.message)\<close>.
\<close>

definition teacher_throw_failed :: "host \<Rightarrow> jsval \<Rightarrow> unit js" where
  "teacher_throw_failed h record =
     js_bind (js_get record ''message'') (\<lambda>message.
     if truthy message then js_throw (new_Error h message) else js_return ())"

text \<open>
  A method of this module whose body reaches its end without a \<^verbatim>\<open>return\<close> answers
  \<^verbatim>\<open>undefined\<close>: the last branch of \<^verbatim>\<open>create\<close>, \<^verbatim>\<open>update\<close> and \<^verbatim>\<open>delete\<close>.
\<close>

definition teacher_create :: "host \<Rightarrow> transport \<Rightarrow> jsval \<Rightarrow> jsval js" where
  "teacher_create h tr teacherData =
     js_catch
       (js_bind (js_get teacherData ''name_c'') (\<lambda>v_name.
        js_bind (js_get teacherData ''email_c'') (\<lambda>v_email.
        js_bind (js_get teacherData ''department_c'') (\<lambda>v_department.
        let filteredData =
              Obj [(''name_c'', v_name),
                   (''email_c'', v_email),
                   (''department_c'', v_department)];
            params = Obj [(''records'', Arr [filteredData])]
        in
        js_bind (call tr (CreateRecord ''teacher_c'' params)) (\<lambda>response.
        js_bind (js_get response ''success'') (\<lambda>success.
        if \<not> truthy success then
          js_bind (js_get response ''message'') (\<lambda>message.
          js_bind (console_error [message]) (\<lambda>_.
          js_throw (new_Error h message)))
        else
          js_bind (js_get response ''results'') (\<lambda>results.
          if truthy results then
            js_bind (js_filter results is_success) (\<lambda>successful.
            js_bind (js_filter results is_failure) (\<lambda>failed.
            js_bind (if length failed > 0 then
                       js_bind (console_error
                                  [Str (''Failed to create '' @ numberToString h (int (length failed)) @ '' teacher records:''),
                                   Arr failed]) (\<lambda>_.
                       js_each (teacher_throw_failed h) failed)
                     else js_return ()) (\<lambda>_.
            js_return (js_opt (first_elem successful) ''data''))))
          else js_return Undefined)))))))
       (\<lambda>error.
        js_bind (console_error [Str ''Error creating teacher:'', teacher_catch_message error]) (\<lambda>_.
        js_throw error))"

definition teacher_update :: "host \<Rightarrow> transport \<Rightarrow> jsval \<Rightarrow> jsval \<Rightarrow> jsval js" where
  "teacher_update h tr teacherId teacherData =
     js_catch
       (js_bind (js_get teacherData ''name_c'') (\<lambda>v_name.
        js_bind (js_get teacherData ''email_c'') (\<lambda>v_email.
        js_bind (js_get teacherData ''department_c'') (\<lambda>v_department.
        let filteredData =
              Obj [(''Id'', teacherId),
                   (''name_c'', v_name),
                   (''email_c'', v_email),
                   (''department_c'', v_department)];
            params = Obj [(''records'', Arr [filteredData])]
        in
        js_bind (call tr (UpdateRecord ''teacher_c'' params)) (\<lambda>response.
        js_bind (js_get response ''success'') (\<lambda>success.
        if \<not> truthy success then
          js_bind (js_get response ''message'') (\<lambda>message.
          js_bind (console_error [message]) (\<lambda>_.
          js_throw (new_Error h message)))
        else
          js_bind (js_get response ''results'') (\<lambda>results.
          if truthy results then
            js_bind (js_filter results is_success) (\<lambda>successful.
            js_bind (js_filter results is_failure) (\<lambda>failed.
            js_bind (if length failed > 0 then
                       js_bind (console_error
                                  [Str (''Failed to update '' @ numberToString h (int (length failed)) @ '' teacher records:''),
                                   Arr failed]) (\<lambda>_.
                       js_each (teacher_throw_failed h) failed)
                     else js_return ()) (\<lambda>_.
            js_return (js_opt (first_elem successful) ''data''))))
          else js_return Undefined)))))))
       (\<lambda>error.
        js_bind (console_error [Str ''Error updating teacher:'', teacher_catch_message error]) (\<lambda>_.
        js_throw error))"

definition teacher_delete :: "host \<Rightarrow> transport \<Rightarrow> jsval \<Rightarrow> jsval js" where
  "teacher_delete h tr teacherId =
     js_catch
       (let params = Obj [(''RecordIds'', Arr [teacherId])] in
        js_bind (call tr (DeleteRecord ''teacher_c'' params)) (\<lambda>response.
        js_bind (js_get response ''success'') (\<lambda>success.
        if \<not> truthy success then
          js_bind (js_get response ''message'') (\<lambda>message.
          js_bind (console_error [message]) (\<lambda>_.
          js_throw (new_Error h message)))
        else
          js_bind (js_get response ''results'') (\<lambda>results.
          if truthy results then
            js_bind (js_filter results is_success) (\<lambda>successful.
            js_bind (js_filter results is_failure) (\<lambda>failed.
            js_bind (if length failed > 0 then
                       js_bind (console_error
                                  [Str (''Failed to delete '' @ numberToString h (int (length failed)) @ '' teacher records:''),
                                   Arr failed]) (\<lambda>_.
                       js_each (teacher_throw_failed h) failed)
                     else js_return ()) (\<lambda>_.
            js_return (Bool (length successful > 0)))))
          else js_return Undefined))))
       (\<lambda>error.
        js_bind (console_error [Str ''Error deleting teacher:'', teacher_catch_message error]) (\<lambda>_.
        js_throw error))"

section \<open>Transports and responses used to state the properties\<close>

text \<open>A transport that answers every request with the same response, and one that always throws.\<close>

definition transport_returning :: "jsval \<Rightarrow> transport" where
  "transport_returning response = (\<lambda>req. Inr response)"

definition transport_throwing :: "jsval \<Rightarrow> transport" where
  "transport_throwing e = (\<lambda>req. Inl e)"

text \<open>
  The per-record results of a write response, as the transport contract describes them:
  every record is an object, and its \<^verbatim>\<open>errors\<close>, when present, is an array of objects.
\<close>

fun wf_errors :: "jsval \<Rightarrow> bool" where
  "wf_errors (Arr es) = list_all (\<lambda>e. \<not> nullish e) es"
| "wf_errors v = (\<not> truthy v)"

definition wf_record :: "jsval \<Rightarrow> bool" where
  "wf_record r = (\<not> nullish r \<and> wf_errors (read_prop r ''errors''))"

definition succeeded :: "jsval list \<Rightarrow> jsval list" where
  "succeeded rs = filter (\<lambda>r. truthy (read_prop r ''success'')) rs"

definition failed_records :: "jsval list \<Rightarrow> jsval list" where
  "failed_records rs = filter (\<lambda>r. \<not> truthy (read_prop r ''success'')) rs"

text \<open>
  The notifications the specification asks for one failed record: one per field-level
  reason, formatted as field label, colon, message, and one for the record-level message.
\<close>

definition spec_field_toasts :: "host \<Rightarrow> jsval \<Rightarrow> event list" where
  "spec_field_toasts h errors =
     (case errors of
        Arr es \<Rightarrow>
          map (\<lambda>e. ToastError (Str (toString h (read_prop e ''fieldLabel'') @ '': '' @
                                     toString h (read_prop e ''message'')))) es
      | _ \<Rightarrow> [])"

definition spec_message_toasts :: "jsval \<Rightarrow> event list" where
  "spec_message_toasts r =
     (if truthy (read_prop r ''message'') then [ToastError (read_prop r ''message'')] else [])"

definition spec_failure_toasts :: "host \<Rightarrow> jsval \<Rightarrow> event list" where
  "spec_failure_toasts h r = spec_field_toasts h (read_prop r ''errors'') @ spec_message_toasts r"

text \<open>The failed records that carry a record-level message.\<close>

definition with_message :: "jsval list \<Rightarrow> jsval list" where
  "with_message rs = filter (\<lambda>r. truthy (read_prop r ''message'')) rs"

definition wf_results :: "jsval \<Rightarrow> bool" where
  "wf_results results =
     (case results of Arr rs \<Rightarrow> list_all wf_record rs | v \<Rightarrow> \<not> truthy v)"

text \<open>
  What the specification asks of \<^verbatim>\<open>create\<close> and \<^verbatim>\<open>update\<close> once the envelope has
  succeeded, as notifications and returned value: with a failed record, the failure value
  after the notifications of every failed record; with none failed and one succeeded, the
  data of the first succeeded record after one success notification; with no result at
  all, the failure value. The failure value of activityService is \<^verbatim>\<open>null\<close>.
\<close>

definition spec_write :: "host \<Rightarrow> string \<Rightarrow> jsval \<Rightarrow> event list \<times> (jsval + jsval)" where
  "spec_write h success_text results =
     (case results of
        Arr rs \<Rightarrow>
          if failed_records rs \<noteq> [] then
            (concat (map (spec_failure_toasts h) (failed_records rs)), Inr Null)
          else if succeeded rs \<noteq> [] then
            ([ToastSuccess (Str success_text)], Inr (read_prop (first_elem (succeeded rs)) ''data''))
          else ([], Inr Null)
      | _ \<Rightarrow> ([], Inr Null))"

section \<open>Properties of the building blocks\<close>

lemma js_bind_Inr [simp]: "js_bind (es, Inr v) f = (es @ fst (f v), snd (f v))"
  by (simp add: js_bind_def split: prod.splits)

lemma js_bind_Inl [simp]: "js_bind (es, Inl e) f = (es, Inl e)"
  by (simp add: js_bind_def)

lemma js_catch_Inr [simp]: "js_catch (es, Inr v) h = (es, Inr v)"
  by (simp add: js_catch_def)

lemma js_catch_Inl [simp]: "js_catch (es, Inl e) h = (es @ fst (h e), snd (h e))"
  by (simp add: js_catch_def split: prod.splits)

lemma fst_js_bind: "fst (js_bind m f) = fst m @ (case snd m of Inl e \<Rightarrow> [] | Inr v \<Rightarrow> fst (f v))"
  by (cases m) (simp split: sum.splits)

lemma snd_js_bind: "snd (js_bind m f) = (case snd m of Inl e \<Rightarrow> Inl e | Inr v \<Rightarrow> snd (f v))"
  by (cases m) (simp split: sum.splits)

lemma fst_js_catch: "fst (js_catch m h) = fst m @ (case snd m of Inl e \<Rightarrow> fst (h e) | Inr v \<Rightarrow> [])"
  by (cases m) (simp split: sum.splits)

lemma snd_js_catch: "snd (js_catch m h) = (case snd m of Inl e \<Rightarrow> snd (h e) | Inr v \<Rightarrow> Inr v)"
  by (cases m) (simp split: sum.splits)

lemmas js_prims = js_return_def js_throw_def emit_def toast_error_def toast_success_def
  console_error_def call_def js_get_def

lemmas js_proj = fst_js_bind snd_js_bind fst_js_catch snd_js_catch

lemma toString_Str [simp]: "toString h (Str s) = s"
  by (simp add: toString_def)

lemma requests_of_append [simp]: "requests_of (xs @ ys) = requests_of xs @ requests_of ys"
  by (induction xs rule: requests_of.induct) simp_all

lemma fst_activity_catch_message [simp]: "fst (activity_catch_message e) = []"
  by (simp add: activity_catch_message_def js_prims Let_def)

lemma fst_js_filter_list [simp]:
  "fst (js_filter_list is_success rs) = []"
  "fst (js_filter_list is_failure rs) = []"
  by (induction rs) (simp_all add: js_proj js_prims is_success_def is_failure_def split: sum.splits)

lemma fst_js_filter [simp]:
  "fst (js_filter v is_success) = []"
  "fst (js_filter v is_failure) = []"
  by (simp_all add: js_filter_def js_prims split: jsval.splits)

lemma getById_req:
  "requests (activity_getById h tr ident) = [GetRecordById ''activity_c'' ident activity_getById_params]"
  "requests (teacher_getById h tr ident) = [GetRecordById ''teacher_c'' ident teacher_getById_params]"
  by (simp_all add: requests_def activity_getById_def teacher_getById_def js_proj js_prims
        activity_tableName_def split: sum.splits)

lemma req_toast_field [simp]: "requests_of (fst (activity_toast_field_error h e)) = []"
  by (simp add: activity_toast_field_error_def js_proj js_prims split: sum.splits)

lemma req_each_toast_field [simp]: "requests_of (fst (js_each (activity_toast_field_error h) es)) = []"
  by (induction es) (simp_all add: js_proj js_prims split: sum.splits)

lemma req_report_failed [simp]: "requests_of (fst (activity_report_failed h r)) = []"
  by (simp add: activity_report_failed_def js_forEach_def js_proj js_prims split: sum.splits jsval.splits)

lemma req_report_failed_delete [simp]: "requests_of (fst (activity_report_failed_delete r)) = []"
  by (simp add: activity_report_failed_delete_def js_proj js_prims split: sum.splits)

lemma req_throw_failed [simp]: "requests_of (fst (teacher_throw_failed h r)) = []"
  by (simp add: teacher_throw_failed_def js_proj js_prims split: sum.splits)

lemma req_each [simp]:
  "requests_of (fst (js_each (activity_report_failed h) rs)) = []"
  "requests_of (fst (js_each activity_report_failed_delete rs)) = []"
  "requests_of (fst (js_each (teacher_throw_failed h) rs)) = []"
  by (induction rs) (simp_all add: js_proj js_prims split: sum.splits)

lemma wf_record_not_nullish: "wf_record r \<Longrightarrow> \<not> nullish r"
  by (simp add: wf_record_def)

lemma js_filter_list_is_success:
  "list_all (\<lambda>r. \<not> nullish r) rs \<Longrightarrow> js_filter_list is_success rs = ([], Inr (succeeded rs))"
  by (induction rs) (simp_all add: js_prims is_success_def succeeded_def)

lemma js_filter_list_is_failure:
  "list_all (\<lambda>r. \<not> nullish r) rs \<Longrightarrow> js_filter_list is_failure rs = ([], Inr (failed_records rs))"
  by (induction rs) (simp_all add: js_prims is_failure_def failed_records_def)

lemma js_filter_Arr:
  "list_all (\<lambda>r. \<not> nullish r) rs \<Longrightarrow> js_filter (Arr rs) is_success = ([], Inr (succeeded rs))"
  "list_all (\<lambda>r. \<not> nullish r) rs \<Longrightarrow> js_filter (Arr rs) is_failure = ([], Inr (failed_records rs))"
  by (simp_all add: js_filter_def js_filter_list_is_success js_filter_list_is_failure)

lemma js_each_toast_field_error:
  "list_all (\<lambda>e. \<not> nullish e) es \<Longrightarrow>
   js_each (activity_toast_field_error h) es =
     (map (\<lambda>e. ToastError (Str (toString h (read_prop e ''fieldLabel'') @ '': '' @
                                toString h (read_prop e ''message'')))) es, Inr ())"
  by (induction es) (simp_all add: js_prims activity_toast_field_error_def)

lemma activity_report_failed_wf:
  "wf_record r \<Longrightarrow> activity_report_failed h r = (spec_failure_toasts h r, Inr ())"
proof -
  assume wf: "wf_record r"
  then have nn: "\<not> nullish r" and we: "wf_errors (read_prop r ''errors'')"
    by (simp_all add: wf_record_def)
  show ?thesis
  proof (cases "read_prop r ''errors''")
    case (Arr es)
    with we have "list_all (\<lambda>e. \<not> nullish e) es" by simp
    then show ?thesis using nn Arr
      by (simp add: activity_report_failed_def js_forEach_def js_each_toast_field_error
          spec_failure_toasts_def spec_field_toasts_def spec_message_toasts_def js_prims)
  qed (use we nn in \<open>simp_all add: activity_report_failed_def spec_failure_toasts_def
        spec_field_toasts_def spec_message_toasts_def js_prims\<close>)
qed

lemma js_each_report_failed:
  "list_all wf_record rs \<Longrightarrow>
   js_each (activity_report_failed h) rs = (concat (map (spec_failure_toasts h) rs), Inr ())"
  by (induction rs) (simp_all add: js_prims activity_report_failed_wf)

lemma js_each_report_failed_delete:
  "list_all (\<lambda>r. \<not> nullish r) rs \<Longrightarrow>
   js_each activity_report_failed_delete rs = (concat (map spec_message_toasts rs), Inr ())"
  by (induction rs)
     (simp_all add: js_prims activity_report_failed_delete_def spec_message_toasts_def)

lemma js_each_throw_failed:
  "list_all (\<lambda>r. \<not> nullish r) rs \<Longrightarrow>
   js_each (teacher_throw_failed h) rs =
     ([], case with_message rs of
            [] \<Rightarrow> Inr ()
          | r # _ \<Rightarrow> Inl (new_Error h (read_prop r ''message'')))"
  by (induction rs)
     (simp_all add: js_prims teacher_throw_failed_def with_message_def)

lemma list_all_failed:
  "list_all P rs \<Longrightarrow> list_all P (failed_records rs)"
  "list_all P rs \<Longrightarrow> list_all P (succeeded rs)"
  by (simp_all add: failed_records_def succeeded_def list_all_iff)

lemma toasts_only [simp]:
  "filter is_toast (spec_failure_toasts h r) = spec_failure_toasts h r"
  "filter is_toast (spec_message_toasts r) = spec_message_toasts r"
  by (auto simp: spec_failure_toasts_def spec_field_toasts_def spec_message_toasts_def
      filter_map comp_def split: jsval.splits)

lemma toasts_only_concat [simp]:
  "filter is_toast (concat (map (spec_failure_toasts h) rs)) = concat (map (spec_failure_toasts h) rs)"
  "filter is_toast (concat (map spec_message_toasts rs)) = concat (map spec_message_toasts rs)"
  by (induction rs) simp_all

lemma fst_teacher_throw_failed [simp]: "fst (teacher_throw_failed h r) = []"
  by (simp add: teacher_throw_failed_def js_proj js_prims split: sum.splits)

lemma fst_each_teacher_throw_failed [simp]: "fst (js_each (teacher_throw_failed h) rs) = []"
  by (induction rs) (simp_all add: js_proj js_prims split: sum.splits)

lemma teacher_silent:
  "notifications (teacher_getAll tr) = []"
  "notifications (teacher_getById h tr ident) = []"
  "notifications (teacher_create h tr P) = []"
  "notifications (teacher_update h tr ident P) = []"
  "notifications (teacher_delete h tr ident) = []"
  by (simp_all add: notifications_def teacher_getAll_def teacher_getById_def teacher_create_def
      teacher_update_def teacher_delete_def js_proj js_prims Let_def split: sum.splits)

lemma activity_create_refines:
  assumes "truthy (read_prop (Obj kvs) ''success'')"
    and "wf_results (read_prop (Obj kvs) ''results'')"
  shows "notifications (activity_create h (transport_returning (Obj kvs)) (Obj p)) =
           fst (spec_write h ''Activity created successfully'' (read_prop (Obj kvs) ''results''))"
    and "outcome (activity_create h (transport_returning (Obj kvs)) (Obj p)) =
           snd (spec_write h ''Activity created successfully'' (read_prop (Obj kvs) ''results''))"
proof -
  let ?res = "read_prop (Obj kvs) ''results''"
  have "notifications (activity_create h (transport_returning (Obj kvs)) (Obj p)) =
           fst (spec_write h ''Activity created successfully'' ?res) \<and>
        outcome (activity_create h (transport_returning (Obj kvs)) (Obj p)) =
           snd (spec_write h ''Activity created successfully'' ?res)"
  proof (cases ?res)
    case (Arr rs)
    with assms(2) have wf: "list_all wf_record rs" by (simp add: wf_results_def)
    then have nn: "list_all (\<lambda>r. \<not> nullish r) rs"
      by (simp add: list_all_iff wf_record_def)
    have wff: "list_all wf_record (failed_records rs)" using wf by (rule list_all_failed)
    have sn: "succeeded rs \<noteq> [] \<Longrightarrow> \<not> nullish (first_elem (succeeded rs))"
      using list_all_failed(2)[OF nn] by (cases "succeeded rs") (simp_all add: first_elem_def)
    show ?thesis using assms(1) Arr sn
      by (simp add: notifications_def outcome_def activity_create_def transport_returning_def
          spec_write_def js_prims Let_def js_filter_Arr[OF nn] js_each_report_failed[OF wff]
          del: read_prop.simps)
  qed (use assms in \<open>simp_all add: notifications_def outcome_def activity_create_def
        transport_returning_def spec_write_def wf_results_def js_prims Let_def del: read_prop.simps\<close>)
  then show "notifications (activity_create h (transport_returning (Obj kvs)) (Obj p)) =
           fst (spec_write h ''Activity created successfully'' (read_prop (Obj kvs) ''results''))"
    and "outcome (activity_create h (transport_returning (Obj kvs)) (Obj p)) =
           snd (spec_write h ''Activity created successfully'' (read_prop (Obj kvs) ''results''))"
    by simp_all
qed

section \<open>The requests the services send\<close>

text \<open>
  C10: \<^verbatim>\<open>getAll\<close> takes no argument and always sends the same request: a fixed list of
  fields, a fixed ordering (\<^verbatim>\<open>ModifiedOn\<close> descending for activities, \<^verbatim>\<open>name_c\<close> ascending
  for teachers) and the paging \<^verbatim>\<open>limit 100, offset 0\<close>. Whatever the transport does, this is
  the one request of the call, so no caller can ask for other fields, another order,
  another page or more than 100 rows.
\<close>

theorem getAll_sends_fixed_descriptor:
  "requests (activity_getAll tr) =
     [FetchRecords ''activity_c''
        (Obj [(''fields'',
                 Arr [field ''Name'', field ''Tags'', field ''subject_c'', field ''description_c'',
                      field ''status_c'', field ''priority_c'', field ''due_date_c'',
                      field ''CreatedOn'', field ''ModifiedOn'']),
              (''orderBy'', Arr [Obj [(''fieldName'', Str ''ModifiedOn''), (''sorttype'', Str ''DESC'')]]),
              (''pagingInfo'', Obj [(''limit'', Num 100), (''offset'', Num 0)])])] \<and>
   requests (teacher_getAll tr) =
     [FetchRecords ''teacher_c''
        (Obj [(''fields'',
                 Arr [field ''Id'', field ''name_c'', field ''email_c'', field ''department_c'']),
              (''orderBy'', Arr [Obj [(''fieldName'', Str ''name_c''), (''sorttype'', Str ''ASC'')]]),
              (''pagingInfo'', Obj [(''limit'', Num 100), (''offset'', Num 0)])])]"
  by (simp add: requests_def activity_getAll_def teacher_getAll_def js_proj js_prims
        activity_tableName_def activity_getAll_params_def teacher_getAll_params_def
        split: sum.splits)

text \<open>
  C8, as the specification states it, asks \<^verbatim>\<open>getById\<close> to coerce or validate the identifier
  to a positive integer before any network call and to reject an invalid one without
  contacting the transport. The code does neither: the negative number \<open>-5\<close> and the
  string \<^verbatim>\<open>abc\<close> both reach the transport as they were given.
\<close>

theorem getById_validation_counterexample:
  "requests (activity_getById example_host (transport_returning (Obj [(''success'', Bool True), (''data'', Null)]))
              (Num (- 5))) =
     [GetRecordById ''activity_c'' (Num (- 5)) activity_getById_params] \<and>
   requests (teacher_getById example_host (transport_returning (Obj [(''success'', Bool True), (''data'', Null)]))
              (Str ''abc'')) =
     [GetRecordById ''teacher_c'' (Str ''abc'') teacher_getById_params]"
  by (simp add: getById_req)

text \<open>
  C8, amended: \<^verbatim>\<open>getById\<close> performs no coercion and no validation. Whatever identifier it
  is given, and whatever the transport then does, it makes exactly one
  \<^verbatim>\<open>getRecordById\<close> call, which carries that identifier unchanged.
\<close>

theorem getById_passes_identifier_unchanged:
  "requests (activity_getById h tr ident) =
     [GetRecordById ''activity_c'' ident activity_getById_params] \<and>
   requests (teacher_getById h tr ident) =
     [GetRecordById ''teacher_c'' ident teacher_getById_params]"
  by (simp add: getById_req)






section \<open>Reading: \<^verbatim>\<open>getAll\<close> and \<^verbatim>\<open>getById\<close>\<close>

lemma activity_getAll_no_rows:
  assumes "truthy (read_prop (Obj kvs) ''success'')"
    and "read_prop (Obj kvs) ''data'' = Undefined \<or> read_prop (Obj kvs) ''data'' = Null \<or>
         read_prop (Obj kvs) ''data'' = Arr []"
  shows "outcome (activity_getAll (transport_returning (Obj kvs))) = Inr (Arr [])"
  using assms
  by (auto simp add: outcome_def activity_getAll_def transport_returning_def js_prims js_or_def
      simp del: read_prop.simps)

lemma teacher_getAll_no_rows:
  assumes "read_prop (Obj kvs) ''data'' = Undefined \<or> read_prop (Obj kvs) ''data'' = Null \<or>
           read_prop (Obj kvs) ''data'' = Arr []"
  shows "outcome (teacher_getAll (transport_returning (Obj kvs))) = Inr (Arr [])"
  using assms
  by (auto simp add: outcome_def teacher_getAll_def transport_returning_def js_prims js_opt_def
      simp del: read_prop.simps)

text \<open>
  C4: when the transport reports success and there is no row (the \<^verbatim>\<open>data\<close> of the response
  is the empty array, \<^verbatim>\<open>null\<close>, or absent), \<^verbatim>\<open>getAll\<close> of both services returns the empty
  array, never \<^verbatim>\<open>null\<close> or \<^verbatim>\<open>undefined\<close>.
\<close>

theorem getAll_no_rows_returns_empty:
  "truthy (read_prop (Obj kvs) ''success'') \<Longrightarrow>
   read_prop (Obj kvs) ''data'' = Undefined \<or> read_prop (Obj kvs) ''data'' = Null \<or>
     read_prop (Obj kvs) ''data'' = Arr [] \<Longrightarrow>
   outcome (activity_getAll (transport_returning (Obj kvs))) = Inr (Arr []) \<and>
   outcome (teacher_getAll (transport_returning (Obj kvs))) = Inr (Arr [])"
  by (simp only: activity_getAll_no_rows teacher_getAll_no_rows simp_thms)

theorem getAll_no_rows_returns_empty_witness:
  "truthy (read_prop (Obj [(''success'', Bool True), (''data'', Null)]) ''success'') \<and>
   read_prop (Obj [(''success'', Bool True), (''data'', Null)]) ''data'' = Null \<and>
   outcome (activity_getAll (transport_returning (Obj [(''success'', Bool True), (''data'', Null)]))) =
     Inr (Arr []) \<and>
   outcome (teacher_getAll (transport_returning (Obj [(''success'', Bool True), (''data'', Null)]))) =
     Inr (Arr [])"
  using getAll_no_rows_returns_empty [where kvs = "[(''success'', Bool True), (''data'', Null)]"]
  by simp

lemma activity_getAll_failure:
  assumes "\<not> truthy (read_prop (Obj kvs) ''success'')"
  shows "outcome (activity_getAll (transport_returning (Obj kvs))) = Inr (Arr [])"
    and "notifications (activity_getAll (transport_returning (Obj kvs))) =
           [ToastError (read_prop (Obj kvs) ''message'')]"
  using assms
  by (simp_all add: outcome_def notifications_def activity_getAll_def transport_returning_def
      js_prims del: read_prop.simps)

lemma teacher_getAll_outcome:
  "outcome (teacher_getAll (transport_returning (Obj kvs))) =
     Inr (if truthy (js_opt (read_prop (Obj kvs) ''data'') ''length'')
          then read_prop (Obj kvs) ''data'' else Arr [])"
  by (simp add: outcome_def teacher_getAll_def transport_returning_def js_prims js_opt_def
      del: read_prop.simps)

lemma activity_catch_message_returns:
  "\<not> nullish e \<Longrightarrow> \<exists>m. activity_catch_message e = ([], Inr m)"
  by (simp add: activity_catch_message_def js_prims Let_def)

lemma activity_getAll_throws:
  assumes "\<not> nullish e"
  shows "outcome (activity_getAll (transport_throwing e)) = Inr (Arr [])"
    and "notifications (activity_getAll (transport_throwing e)) =
           [ToastError (Str ''Failed to load activities'')]"
proof -
  from activity_catch_message_returns[OF assms]
  obtain m where m: "activity_catch_message e = ([], Inr m)" by blast
  show "outcome (activity_getAll (transport_throwing e)) = Inr (Arr [])"
    by (simp add: outcome_def activity_getAll_def transport_throwing_def js_prims m)
  show "notifications (activity_getAll (transport_throwing e)) =
           [ToastError (Str ''Failed to load activities'')]"
    by (simp add: notifications_def activity_getAll_def transport_throwing_def js_prims m)
qed

lemma activity_getAll_returns: "\<not> isl (outcome (activity_getAll (transport_returning r)))"
proof (cases "nullish r")
  case True
  have "\<not> nullish TypeError" by (simp add: TypeError_def)
  from activity_catch_message_returns[OF this]
  obtain m where m: "activity_catch_message TypeError = ([], Inr m)" by blast
  show ?thesis using True
    by (simp add: outcome_def activity_getAll_def transport_returning_def js_prims m)
next
  case False
  then show ?thesis
    by (simp add: outcome_def activity_getAll_def transport_returning_def js_prims)
qed

text \<open>
  The \<^verbatim>\<open>catch\<close> blocks of activityService read \<^verbatim>\<open>error.message\<close>. When the value
  thrown is \<^verbatim>\<open>undefined\<close> (or \<^verbatim>\<open>null\<close>) that read throws in its turn, before the
  notification; the properties below are therefore stated for the other thrown values.
\<close>

lemma activity_getAll_throws_undefined:
  "outcome (activity_getAll (transport_throwing Undefined)) = Inl TypeError"
  "notifications (activity_getAll (transport_throwing Undefined)) = []"
  by (simp_all add: outcome_def notifications_def activity_getAll_def transport_throwing_def
      activity_catch_message_def js_opt_def js_prims)

lemma teacher_getAll_rethrows: "outcome (teacher_getAll (transport_throwing e)) = Inl e"
  by (simp add: outcome_def teacher_getAll_def transport_throwing_def js_prims)

text \<open>
  C1, as the specification states it, asks every \<^verbatim>\<open>getAll\<close> to show one notification with
  the transport's message when the transport reports failure, and never to let an
  exception reach the caller. teacherService does neither: on the response
  \<^verbatim>\<open>{success: false, message: "Server error"}\<close> it shows nothing, and when the transport
  call throws, its \<^verbatim>\<open>catch\<close> block throws the same error again.
\<close>

theorem getAll_failure_notification_counterexample:
  "notifications (teacher_getAll (transport_returning
      (Obj [(''success'', Bool False), (''message'', Str ''Server error'')]))) = [] \<and>
   outcome (teacher_getAll (transport_throwing (new_Error example_host (Str ''Network Error'')))) =
     Inl (new_Error example_host (Str ''Network Error''))"
  by (simp add: teacher_silent teacher_getAll_rethrows)

text \<open>
  C1, amended. When the transport reports failure by a response whose \<^verbatim>\<open>success\<close> is not
  truthy, \<^verbatim>\<open>activityService.getAll\<close> returns its failure value, the empty array, after
  exactly one error notification that carries the transport's message. When the transport
  call throws (a value other than \<^verbatim>\<open>null\<close> and \<^verbatim>\<open>undefined\<close>), it catches the exception
  and returns the empty array after exactly one notification, the fixed text
  \<^verbatim>\<open>Failed to load activities\<close>. Whatever response the transport returns, it does not
  throw. \<^verbatim>\<open>teacherService.getAll\<close> never shows a notification and does not read the success
  flag: it returns the empty array unless the response carries a non-empty \<^verbatim>\<open>data\<close>, which
  it then returns, and it throws again to its caller whatever the transport call throws.
\<close>

theorem getAll_transport_failure:
  "\<not> truthy (read_prop (Obj kvs) ''success'') \<Longrightarrow> \<not> nullish e \<Longrightarrow>
   outcome (activity_getAll (transport_returning (Obj kvs))) = Inr (Arr []) \<and>
   notifications (activity_getAll (transport_returning (Obj kvs))) =
     [ToastError (read_prop (Obj kvs) ''message'')] \<and>
   outcome (activity_getAll (transport_throwing e)) = Inr (Arr []) \<and>
   notifications (activity_getAll (transport_throwing e)) =
     [ToastError (Str ''Failed to load activities'')] \<and>
   \<not> isl (outcome (activity_getAll (transport_returning r))) \<and>
   notifications (teacher_getAll tr) = [] \<and>
   outcome (teacher_getAll (transport_returning (Obj kvs))) =
     Inr (if truthy (js_opt (read_prop (Obj kvs) ''data'') ''length'')
          then read_prop (Obj kvs) ''data'' else Arr []) \<and>
   outcome (teacher_getAll (transport_throwing e)) = Inl e"
  by (simp only: activity_getAll_failure activity_getAll_throws activity_getAll_returns
      teacher_silent teacher_getAll_outcome teacher_getAll_rethrows simp_thms)

theorem getAll_transport_failure_witness:
  "\<not> truthy (read_prop (Obj [(''success'', Bool False), (''message'', Str ''Server error'')]) ''success'') \<and>
   \<not> nullish (Str ''Network Error'') \<and>
   outcome (activity_getAll (transport_returning
      (Obj [(''success'', Bool False), (''message'', Str ''Server error'')]))) = Inr (Arr []) \<and>
   notifications (activity_getAll (transport_returning
      (Obj [(''success'', Bool False), (''message'', Str ''Server error'')]))) =
     [ToastError (Str ''Server error'')] \<and>
   outcome (activity_getAll (transport_throwing (Str ''Network Error''))) = Inr (Arr []) \<and>
   notifications (activity_getAll (transport_throwing (Str ''Network Error''))) =
     [ToastError (Str ''Failed to load activities'')] \<and>
   notifications (teacher_getAll (transport_returning
      (Obj [(''success'', Bool False), (''message'', Str ''Server error'')]))) = [] \<and>
   outcome (teacher_getAll (transport_returning
      (Obj [(''success'', Bool False), (''message'', Str ''Server error'')]))) = Inr (Arr []) \<and>
   outcome (teacher_getAll (transport_throwing (Str ''Network Error''))) = Inl (Str ''Network Error'')"
  using getAll_transport_failure
    [where kvs = "[(''success'', Bool False), (''message'', Str ''Server error'')]"
       and e = "Str ''Network Error''" and r = Null
       and tr = "transport_returning (Obj [(''success'', Bool False), (''message'', Str ''Server error'')])"]
  by (simp add: js_opt_def)

lemma activity_getById_no_row:
  assumes "truthy (read_prop (Obj kvs) ''success'')"
  shows "outcome (activity_getById h (transport_returning (Obj kvs)) ident) =
           Inr (read_prop (Obj kvs) ''data'')"
    and "notifications (activity_getById h (transport_returning (Obj kvs)) ident) = []"
  using assms
  by (simp_all add: outcome_def notifications_def activity_getById_def transport_returning_def
      js_prims del: read_prop.simps)

lemma teacher_getById_no_row:
  assumes "read_prop (Obj kvs) ''data'' = Undefined \<or> read_prop (Obj kvs) ''data'' = Null"
  shows "outcome (teacher_getById h (transport_returning (Obj kvs)) ident) = Inr Null"
  using assms
  by (auto simp add: outcome_def teacher_getById_def transport_returning_def js_prims js_opt_def
      simp del: read_prop.simps)

text \<open>
  C6, as the specification states it, asks \<^verbatim>\<open>getById\<close> to return \<^verbatim>\<open>null\<close> when the transport
  reports success and no row matches. \<^verbatim>\<open>activityService.getById\<close> returns
  \<^verbatim>\<open>response.data\<close> as it is: for the response \<^verbatim>\<open>{success: true}\<close>, which has no
  \<^verbatim>\<open>data\<close>, the value returned is \<^verbatim>\<open>undefined\<close>, not \<^verbatim>\<open>null\<close>.
\<close>

theorem getById_not_found_counterexample:
  "outcome (activity_getById example_host (transport_returning (Obj [(''success'', Bool True)])) (Num 7)) =
     Inr Undefined \<and>
   outcome (activity_getById example_host (transport_returning (Obj [(''success'', Bool True)])) (Num 7)) \<noteq>
     Inr Null"
  by (simp add: outcome_def activity_getById_def transport_returning_def js_prims)

text \<open>
  C6, amended: when the transport reports success and the response carries no row
  (\<^verbatim>\<open>data\<close> is \<^verbatim>\<open>null\<close> or absent), \<^verbatim>\<open>getById\<close> shows no notification and does not throw.
  \<^verbatim>\<open>teacherService.getById\<close> returns \<^verbatim>\<open>null\<close>; \<^verbatim>\<open>activityService.getById\<close> returns the
  \<^verbatim>\<open>data\<close> of the response unchanged, that is \<^verbatim>\<open>null\<close> when it is \<^verbatim>\<open>null\<close> and
  \<^verbatim>\<open>undefined\<close> when it is absent.
\<close>

theorem getById_no_row:
  "truthy (read_prop (Obj kvs) ''success'') \<Longrightarrow>
   read_prop (Obj kvs) ''data'' = Undefined \<or> read_prop (Obj kvs) ''data'' = Null \<Longrightarrow>
   outcome (activity_getById h (transport_returning (Obj kvs)) ident) =
     Inr (read_prop (Obj kvs) ''data'') \<and>
   notifications (activity_getById h (transport_returning (Obj kvs)) ident) = [] \<and>
   outcome (teacher_getById h (transport_returning (Obj kvs)) ident) = Inr Null \<and>
   notifications (teacher_getById h (transport_returning (Obj kvs)) ident) = []"
  by (simp only: activity_getById_no_row teacher_getById_no_row teacher_silent simp_thms)

theorem getById_no_row_witness:
  "truthy (read_prop (Obj [(''success'', Bool True), (''data'', Null)]) ''success'') \<and>
   read_prop (Obj [(''success'', Bool True), (''data'', Null)]) ''data'' = Null \<and>
   outcome (activity_getById example_host (transport_returning (Obj [(''success'', Bool True), (''data'', Null)]))
      (Num 7)) = Inr Null \<and>
   notifications (activity_getById example_host (transport_returning (Obj [(''success'', Bool True), (''data'', Null)]))
      (Num 7)) = [] \<and>
   outcome (teacher_getById example_host (transport_returning (Obj [(''success'', Bool True), (''data'', Null)]))
      (Num 7)) = Inr Null \<and>
   notifications (teacher_getById example_host (transport_returning (Obj [(''success'', Bool True), (''data'', Null)]))
      (Num 7)) = []"
  using getById_no_row
    [where kvs = "[(''success'', Bool True), (''data'', Null)]" and ident = "Num 7"
       and h = example_host]
  by simp

section \<open>Writing: \<^verbatim>\<open>create\<close>, \<^verbatim>\<open>update\<close> and \<^verbatim>\<open>delete\<close>\<close>

lemma teacher_write_no_results:
  assumes "truthy (read_prop (Obj kvs) ''success'')" and "map_of kvs ''results'' = None"
  shows "outcome (teacher_create h (transport_returning (Obj kvs)) (Obj p)) = Inr Undefined"
    and "outcome (teacher_update h (transport_returning (Obj kvs)) ident (Obj p)) = Inr Undefined"
    and "outcome (teacher_delete h (transport_returning (Obj kvs)) ident) = Inr Undefined"
proof -
  have r: "read_prop (Obj kvs) ''results'' = Undefined" using assms(2) by simp
  show "outcome (teacher_create h (transport_returning (Obj kvs)) (Obj p)) = Inr Undefined"
    using assms(1) r
    by (simp add: outcome_def teacher_create_def transport_returning_def js_prims Let_def
        del: read_prop.simps)
  show "outcome (teacher_update h (transport_returning (Obj kvs)) ident (Obj p)) = Inr Undefined"
    using assms(1) r
    by (simp add: outcome_def teacher_update_def transport_returning_def js_prims Let_def
        del: read_prop.simps)
  show "outcome (teacher_delete h (transport_returning (Obj kvs)) ident) = Inr Undefined"
    using assms(1) r
    by (simp add: outcome_def teacher_delete_def transport_returning_def js_prims Let_def
        del: read_prop.simps)
qed

text \<open>
  C9: when the envelope of the response succeeds but has no \<^verbatim>\<open>results\<close> field, the three
  writing methods of teacherService reach the end of their body and return
  \<^verbatim>\<open>undefined\<close>: \<^verbatim>\<open>delete\<close> answers neither \<^verbatim>\<open>true\<close> nor \<^verbatim>\<open>false\<close>, and \<^verbatim>\<open>create\<close> and
  \<^verbatim>\<open>update\<close> answer no record.
\<close>

theorem teacher_write_without_results_returns_undefined:
  "truthy (read_prop (Obj kvs) ''success'') \<Longrightarrow> map_of kvs ''results'' = None \<Longrightarrow>
   outcome (teacher_create h (transport_returning (Obj kvs)) (Obj p)) = Inr Undefined \<and>
   outcome (teacher_update h (transport_returning (Obj kvs)) ident (Obj p)) = Inr Undefined \<and>
   outcome (teacher_delete h (transport_returning (Obj kvs)) ident) = Inr Undefined"
  by (simp only: teacher_write_no_results simp_thms)

theorem teacher_write_without_results_returns_undefined_witness:
  "truthy (read_prop (Obj [(''success'', Bool True)]) ''success'') \<and>
   map_of [(''success'', Bool True)] ''results'' = None \<and>
   outcome (teacher_create example_host (transport_returning (Obj [(''success'', Bool True)]))
      (Obj [(''name_c'', Str ''Ann'')])) = Inr Undefined \<and>
   outcome (teacher_update example_host (transport_returning (Obj [(''success'', Bool True)])) (Num 3)
      (Obj [(''name_c'', Str ''Ann'')])) = Inr Undefined \<and>
   outcome (teacher_delete example_host (transport_returning (Obj [(''success'', Bool True)])) (Num 3)) =
     Inr Undefined"
  using teacher_write_without_results_returns_undefined
    [where kvs = "[(''success'', Bool True)]" and p = "[(''name_c'', Str ''Ann'')]"
       and ident = "Num 3" and h = example_host]
  by simp


lemma activity_update_refines:
  assumes "truthy (read_prop (Obj kvs) ''success'')"
    and "wf_results (read_prop (Obj kvs) ''results'')"
  shows "notifications (activity_update h (transport_returning (Obj kvs)) ident (Obj p)) =
           fst (spec_write h ''Activity updated successfully'' (read_prop (Obj kvs) ''results''))"
    and "outcome (activity_update h (transport_returning (Obj kvs)) ident (Obj p)) =
           snd (spec_write h ''Activity updated successfully'' (read_prop (Obj kvs) ''results''))"
proof -
  let ?res = "read_prop (Obj kvs) ''results''"
  have "notifications (activity_update h (transport_returning (Obj kvs)) ident (Obj p)) =
           fst (spec_write h ''Activity updated successfully'' ?res) \<and>
        outcome (activity_update h (transport_returning (Obj kvs)) ident (Obj p)) =
           snd (spec_write h ''Activity updated successfully'' ?res)"
  proof (cases ?res)
    case (Arr rs)
    with assms(2) have wf: "list_all wf_record rs" by (simp add: wf_results_def)
    then have nn: "list_all (\<lambda>r. \<not> nullish r) rs"
      by (simp add: list_all_iff wf_record_def)
    have wff: "list_all wf_record (failed_records rs)" using wf by (rule list_all_failed)
    have sn: "succeeded rs \<noteq> [] \<Longrightarrow> \<not> nullish (first_elem (succeeded rs))"
      using list_all_failed(2)[OF nn] by (cases "succeeded rs") (simp_all add: first_elem_def)
    show ?thesis using assms(1) Arr sn
      by (simp add: notifications_def outcome_def activity_update_def transport_returning_def
          spec_write_def js_prims Let_def js_filter_Arr[OF nn] js_each_report_failed[OF wff]
          del: read_prop.simps)
  qed (use assms in \<open>simp_all add: notifications_def outcome_def activity_update_def
        transport_returning_def spec_write_def wf_results_def js_prims Let_def del: read_prop.simps\<close>)
  then show "notifications (activity_update h (transport_returning (Obj kvs)) ident (Obj p)) =
           fst (spec_write h ''Activity updated successfully'' (read_prop (Obj kvs) ''results''))"
    and "outcome (activity_update h (transport_returning (Obj kvs)) ident (Obj p)) =
           snd (spec_write h ''Activity updated successfully'' (read_prop (Obj kvs) ''results''))"
    by simp_all
qed

lemma teacher_create_results:
  assumes "truthy (read_prop (Obj kvs) ''success'')"
    and "read_prop (Obj kvs) ''results'' = Arr rs"
    and nn: "list_all (\<lambda>r. \<not> nullish r) rs"
  shows "outcome (teacher_create h (transport_returning (Obj kvs)) (Obj p)) =
           (case with_message (failed_records rs) of
              [] \<Rightarrow> Inr (js_opt (first_elem (succeeded rs)) ''data'')
            | r # _ \<Rightarrow> Inl (new_Error h (read_prop r ''message'')))"
proof -
  have nf: "list_all (\<lambda>r. \<not> nullish r) (failed_records rs)" using nn by (rule list_all_failed)
  have e: "failed_records rs = [] \<Longrightarrow> with_message (failed_records rs) = []"
    by (simp add: with_message_def)
  show ?thesis using assms(1,2) e
    by (simp add: outcome_def teacher_create_def transport_returning_def js_prims Let_def
        js_filter_Arr[OF nn] js_each_throw_failed[OF nf] teacher_catch_message_def
        del: read_prop.simps split: list.splits)
qed

lemma teacher_update_results:
  assumes "truthy (read_prop (Obj kvs) ''success'')"
    and "read_prop (Obj kvs) ''results'' = Arr rs"
    and nn: "list_all (\<lambda>r. \<not> nullish r) rs"
  shows "outcome (teacher_update h (transport_returning (Obj kvs)) ident (Obj p)) =
           (case with_message (failed_records rs) of
              [] \<Rightarrow> Inr (js_opt (first_elem (succeeded rs)) ''data'')
            | r # _ \<Rightarrow> Inl (new_Error h (read_prop r ''message'')))"
proof -
  have nf: "list_all (\<lambda>r. \<not> nullish r) (failed_records rs)" using nn by (rule list_all_failed)
  have e: "failed_records rs = [] \<Longrightarrow> with_message (failed_records rs) = []"
    by (simp add: with_message_def)
  show ?thesis using assms(1,2) e
    by (simp add: outcome_def teacher_update_def transport_returning_def js_prims Let_def
        js_filter_Arr[OF nn] js_each_throw_failed[OF nf] teacher_catch_message_def
        del: read_prop.simps split: list.splits)
qed

lemma teacher_delete_results:
  assumes "truthy (read_prop (Obj kvs) ''success'')"
    and "read_prop (Obj kvs) ''results'' = Arr rs"
    and nn: "list_all (\<lambda>r. \<not> nullish r) rs"
  shows "outcome (teacher_delete h (transport_returning (Obj kvs)) ident) =
           (case with_message (failed_records rs) of
              [] \<Rightarrow> Inr (Bool (succeeded rs \<noteq> []))
            | r # _ \<Rightarrow> Inl (new_Error h (read_prop r ''message'')))"
proof -
  have nf: "list_all (\<lambda>r. \<not> nullish r) (failed_records rs)" using nn by (rule list_all_failed)
  have e: "failed_records rs = [] \<Longrightarrow> with_message (failed_records rs) = []"
    by (simp add: with_message_def)
  show ?thesis using assms(1,2) e
    by (simp add: outcome_def teacher_delete_def transport_returning_def js_prims Let_def
        js_filter_Arr[OF nn] js_each_throw_failed[OF nf] teacher_catch_message_def
        del: read_prop.simps split: list.splits)
qed

lemma delete_request:
  "requests (activity_delete h tr ident) =
     [DeleteRecord ''activity_c'' (Obj [(''RecordIds'', Arr [parseInt h ident])])]"
  "requests (teacher_delete h tr ident) =
     [DeleteRecord ''teacher_c'' (Obj [(''RecordIds'', Arr [ident])])]"
  by (simp_all add: requests_def activity_delete_def teacher_delete_def js_proj js_prims Let_def
      activity_tableName_def split: sum.splits)

lemma activity_delete_failure:
  assumes "\<not> truthy (read_prop (Obj kvs) ''success'')"
  shows "outcome (activity_delete h (transport_returning (Obj kvs)) ident) = Inr (Bool False)"
    and "notifications (activity_delete h (transport_returning (Obj kvs)) ident) =
           [ToastError (read_prop (Obj kvs) ''message'')]"
  using assms
  by (simp_all add: outcome_def notifications_def activity_delete_def transport_returning_def
      js_prims Let_def del: read_prop.simps)

lemma teacher_delete_failure:
  assumes "\<not> truthy (read_prop (Obj kvs) ''success'')"
  shows "outcome (teacher_delete h (transport_returning (Obj kvs)) ident) =
           Inl (new_Error h (read_prop (Obj kvs) ''message''))"
  using assms
  by (simp add: outcome_def teacher_delete_def transport_returning_def
      js_prims Let_def del: read_prop.simps)

lemma activity_delete_results:
  assumes "truthy (read_prop (Obj kvs) ''success'')"
    and "read_prop (Obj kvs) ''results'' = Arr rs"
    and nn: "list_all (\<lambda>r. \<not> nullish r) rs"
  shows "outcome (activity_delete h (transport_returning (Obj kvs)) ident) =
           Inr (Bool (failed_records rs = [] \<and> succeeded rs \<noteq> []))"
    and "notifications (activity_delete h (transport_returning (Obj kvs)) ident) =
           (if failed_records rs \<noteq> [] then concat (map spec_message_toasts (failed_records rs))
            else if succeeded rs \<noteq> [] then [ToastSuccess (Str ''Activity deleted successfully'')]
            else [])"
proof -
  have nf: "list_all (\<lambda>r. \<not> nullish r) (failed_records rs)" using nn by (rule list_all_failed)
  show "outcome (activity_delete h (transport_returning (Obj kvs)) ident) =
           Inr (Bool (failed_records rs = [] \<and> succeeded rs \<noteq> []))"
    using assms(1,2)
    by (simp add: outcome_def activity_delete_def transport_returning_def js_prims Let_def
        js_filter_Arr[OF nn] js_each_report_failed_delete[OF nf] del: read_prop.simps)
  show "notifications (activity_delete h (transport_returning (Obj kvs)) ident) =
           (if failed_records rs \<noteq> [] then concat (map spec_message_toasts (failed_records rs))
            else if succeeded rs \<noteq> [] then [ToastSuccess (Str ''Activity deleted successfully'')]
            else [])"
    using assms(1,2)
    by (simp add: notifications_def activity_delete_def transport_returning_def js_prims Let_def
        js_filter_Arr[OF nn] js_each_report_failed_delete[OF nf] del: read_prop.simps)
qed

lemma activity_delete_no_results:
  assumes "truthy (read_prop (Obj kvs) ''success'')"
    and "\<not> truthy (read_prop (Obj kvs) ''results'')"
  shows "outcome (activity_delete h (transport_returning (Obj kvs)) ident) = Inr (Bool False)"
    and "notifications (activity_delete h (transport_returning (Obj kvs)) ident) = []"
  using assms
  by (simp_all add: outcome_def notifications_def activity_delete_def transport_returning_def
      js_prims Let_def del: read_prop.simps)

lemma parseInt_of_sequence: "parseInt example_host (Arr [Num 1, Num 2, Num 3]) = Num 1"
  by code_simp

text \<open>
  C2, as the specification states it, asks every \<^verbatim>\<open>create\<close> and \<^verbatim>\<open>update\<close> to show exactly
  one success notification when no record failed and one succeeded. teacherService shows
  none: here the only record succeeded and its data is returned, in silence.
\<close>

theorem create_success_notification_counterexample:
  "notifications (teacher_create example_host
      (transport_returning
         (Obj [(''success'', Bool True),
               (''results'', Arr [Obj [(''success'', Bool True),
                                       (''data'', Obj [(''Id'', Num 42)])]])]))
      (Obj [(''name_c'', Str ''Ann'')])) = [] \<and>
   outcome (teacher_create example_host
      (transport_returning
         (Obj [(''success'', Bool True),
               (''results'', Arr [Obj [(''success'', Bool True),
                                       (''data'', Obj [(''Id'', Num 42)])]])]))
      (Obj [(''name_c'', Str ''Ann'')])) = Inr (Obj [(''Id'', Num 42)])"
  by (simp add: notifications_def outcome_def teacher_create_def transport_returning_def js_prims
      Let_def is_success_def is_failure_def js_filter_def first_elem_def js_opt_def)

text \<open>
  C2, amended. For \<^verbatim>\<open>create\<close> and \<^verbatim>\<open>update\<close> of activityService, when the envelope succeeds
  and the results are well formed, the notifications and the returned value are those of
  \<open>spec_write\<close>: with a failed record, \<^verbatim>\<open>null\<close> after one notification per field-level
  reason (label, colon, message) and one per record-level message of the failed records;
  with none failed and one succeeded, the data of the first succeeded record after exactly
  one success notification; with empty or absent results, \<^verbatim>\<open>null\<close>.
  \<^verbatim>\<open>create\<close> and \<^verbatim>\<open>update\<close> of teacherService show no notification: when no record failed
  they return the data of the first succeeded record (\<^verbatim>\<open>undefined\<close> when there is none),
  and when a failed record carries a message they throw an \<^verbatim>\<open>Error\<close> with the first such
  message.
\<close>

theorem create_update_outcomes:
  "truthy (read_prop (Obj kvs) ''success'') \<Longrightarrow>
   wf_results (read_prop (Obj kvs) ''results'') \<Longrightarrow>
   notifications (activity_create h (transport_returning (Obj kvs)) (Obj p)) =
     fst (spec_write h ''Activity created successfully'' (read_prop (Obj kvs) ''results'')) \<and>
   outcome (activity_create h (transport_returning (Obj kvs)) (Obj p)) =
     snd (spec_write h ''Activity created successfully'' (read_prop (Obj kvs) ''results'')) \<and>
   notifications (activity_update h (transport_returning (Obj kvs)) ident (Obj p)) =
     fst (spec_write h ''Activity updated successfully'' (read_prop (Obj kvs) ''results'')) \<and>
   outcome (activity_update h (transport_returning (Obj kvs)) ident (Obj p)) =
     snd (spec_write h ''Activity updated successfully'' (read_prop (Obj kvs) ''results'')) \<and>
   notifications (teacher_create h (transport_returning (Obj kvs)) (Obj p)) = [] \<and>
   notifications (teacher_update h (transport_returning (Obj kvs)) ident (Obj p)) = [] \<and>
   (\<forall>rs. read_prop (Obj kvs) ''results'' = Arr rs \<and> failed_records rs = [] \<longrightarrow>
      outcome (teacher_create h (transport_returning (Obj kvs)) (Obj p)) =
        Inr (js_opt (first_elem (succeeded rs)) ''data'') \<and>
      outcome (teacher_update h (transport_returning (Obj kvs)) ident (Obj p)) =
        Inr (js_opt (first_elem (succeeded rs)) ''data'')) \<and>
   (\<forall>rs r rest. read_prop (Obj kvs) ''results'' = Arr rs \<and>
        with_message (failed_records rs) = r # rest \<longrightarrow>
      outcome (teacher_create h (transport_returning (Obj kvs)) (Obj p)) =
        Inl (new_Error h (read_prop r ''message'')) \<and>
      outcome (teacher_update h (transport_returning (Obj kvs)) ident (Obj p)) =
        Inl (new_Error h (read_prop r ''message'')))"
proof -
  assume s: "truthy (read_prop (Obj kvs) ''success'')"
    and w: "wf_results (read_prop (Obj kvs) ''results'')"
  have nn: "list_all (\<lambda>r. \<not> nullish r) rs" if "read_prop (Obj kvs) ''results'' = Arr rs" for rs
    using w that by (simp add: wf_results_def wf_record_def list_all_iff)
  have none: "with_message (failed_records rs) = []" if "failed_records rs = []" for rs
    using that by (simp add: with_message_def)
  have t1: "outcome (teacher_create h (transport_returning (Obj kvs)) (Obj p)) =
              Inr (js_opt (first_elem (succeeded rs)) ''data'')"
    if "read_prop (Obj kvs) ''results'' = Arr rs" "failed_records rs = []" for rs
    using teacher_create_results[OF s that(1) nn[OF that(1)]] none[OF that(2)] by simp
  have t2: "outcome (teacher_update h (transport_returning (Obj kvs)) ident (Obj p)) =
              Inr (js_opt (first_elem (succeeded rs)) ''data'')"
    if "read_prop (Obj kvs) ''results'' = Arr rs" "failed_records rs = []" for rs
    using teacher_update_results[OF s that(1) nn[OF that(1)]] none[OF that(2)] by simp
  have t3: "outcome (teacher_create h (transport_returning (Obj kvs)) (Obj p)) =
              Inl (new_Error h (read_prop r ''message''))"
    if "read_prop (Obj kvs) ''results'' = Arr rs" "with_message (failed_records rs) = r # rest"
    for rs r rest
    using teacher_create_results[OF s that(1) nn[OF that(1)]] that(2) by simp
  have t4: "outcome (teacher_update h (transport_returning (Obj kvs)) ident (Obj p)) =
              Inl (new_Error h (read_prop r ''message''))"
    if "read_prop (Obj kvs) ''results'' = Arr rs" "with_message (failed_records rs) = r # rest"
    for rs r rest
    using teacher_update_results[OF s that(1) nn[OF that(1)]] that(2) by simp
  show ?thesis
    using activity_create_refines[OF s w] activity_update_refines[OF s w] t1 t2 t3 t4
    by (simp only: teacher_silent simp_thms) blast
qed

theorem create_update_outcomes_witness:
  "notifications (activity_create example_host
      (transport_returning
         (Obj [(''success'', Bool True),
               (''results'',
                Arr [Obj [(''success'', Bool False), (''message'', Str ''Validation failed''),
                          (''errors'', Arr [Obj [(''fieldLabel'', Str ''Due date''),
                                                 (''message'', Str ''required'')]])]])]))
      (Obj [(''Name'', Str ''Essay'')])) =
     [ToastError (Str ''Due date: required''), ToastError (Str ''Validation failed'')] \<and>
   outcome (activity_update example_host
      (transport_returning
         (Obj [(''success'', Bool True),
               (''results'',
                Arr [Obj [(''success'', Bool False), (''message'', Str ''Validation failed''),
                          (''errors'', Arr [Obj [(''fieldLabel'', Str ''Due date''),
                                                 (''message'', Str ''required'')]])]])]))
      (Num 7) (Obj [(''Name'', Str ''Essay'')])) = Inr Null \<and>
   outcome (teacher_create example_host
      (transport_returning
         (Obj [(''success'', Bool True),
               (''results'',
                Arr [Obj [(''success'', Bool False), (''message'', Str ''Validation failed''),
                          (''errors'', Arr [Obj [(''fieldLabel'', Str ''Due date''),
                                                 (''message'', Str ''required'')]])]])]))
      (Obj [(''Name'', Str ''Essay'')])) = Inl (new_Error example_host (Str ''Validation failed'')) \<and>
   notifications (activity_create example_host
      (transport_returning
         (Obj [(''success'', Bool True),
               (''results'', Arr [Obj [(''success'', Bool True),
                                       (''data'', Obj [(''Id'', Num 42)])]])]))
      (Obj [(''Name'', Str ''Essay'')])) = [ToastSuccess (Str ''Activity created successfully'')] \<and>
   outcome (activity_create example_host
      (transport_returning
         (Obj [(''success'', Bool True),
               (''results'', Arr [Obj [(''success'', Bool True),
                                       (''data'', Obj [(''Id'', Num 42)])]])]))
      (Obj [(''Name'', Str ''Essay'')])) = Inr (Obj [(''Id'', Num 42)]) \<and>
   outcome (teacher_update example_host
      (transport_returning
         (Obj [(''success'', Bool True),
               (''results'', Arr [Obj [(''success'', Bool True),
                                       (''data'', Obj [(''Id'', Num 42)])]])]))
      (Num 7) (Obj [(''Name'', Str ''Essay'')])) = Inr (Obj [(''Id'', Num 42)])"
  using
    create_update_outcomes
      [where kvs = "[(''success'', Bool True),
            (''results'',
             Arr [Obj [(''success'', Bool False), (''message'', Str ''Validation failed''),
                       (''errors'', Arr [Obj [(''fieldLabel'', Str ''Due date''),
                                              (''message'', Str ''required'')]])]])]"
          and p = "[(''Name'', Str ''Essay'')]" and ident = "Num 7" and h = example_host]
    create_update_outcomes
      [where kvs = "[(''success'', Bool True),
            (''results'', Arr [Obj [(''success'', Bool True),
                                    (''data'', Obj [(''Id'', Num 42)])]])]"
          and p = "[(''Name'', Str ''Essay'')]" and ident = "Num 7" and h = example_host]
  by (simp add: wf_results_def wf_record_def spec_write_def failed_records_def succeeded_def
      with_message_def spec_failure_toasts_def spec_field_toasts_def spec_message_toasts_def
      first_elem_def js_opt_def)

lemma activity_delete_throws:
  assumes "\<not> nullish e"
  shows "outcome (activity_delete h (transport_throwing e) ident) = Inr (Bool False)"
    and "notifications (activity_delete h (transport_throwing e) ident) =
           [ToastError (Str ''Failed to delete activity'')]"
proof -
  from activity_catch_message_returns[OF assms]
  obtain m where m: "activity_catch_message e = ([], Inr m)" by blast
  show "outcome (activity_delete h (transport_throwing e) ident) = Inr (Bool False)"
    by (simp add: outcome_def activity_delete_def transport_throwing_def js_prims Let_def m)
  show "notifications (activity_delete h (transport_throwing e) ident) =
           [ToastError (Str ''Failed to delete activity'')]"
    by (simp add: notifications_def activity_delete_def transport_throwing_def js_prims Let_def m)
qed

lemma teacher_delete_rethrows:
  "outcome (teacher_delete h (transport_throwing e) ident) = Inl e"
  by (simp add: outcome_def teacher_delete_def transport_throwing_def js_prims Let_def)

text \<open>
  C7, as the specification states it, asks \<^verbatim>\<open>delete\<close> to accept a sequence of identifiers
  as one batch and to return the failure value on transport failure. Given the sequence
  \<^verbatim>\<open>[1, 2, 3]\<close>, \<^verbatim>\<open>activityService.delete\<close> sends the single identifier \<open>1\<close>, which is
  what \<^verbatim>\<open>parseInt\<close> reads of it. On the failure response
  \<^verbatim>\<open>{success: false, message: "Server error"}\<close>, \<^verbatim>\<open>teacherService.delete\<close> throws instead
  of returning, and when the transport call itself throws, it throws the same error again.
\<close>

theorem delete_batch_counterexample:
  "requests (activity_delete example_host (transport_returning (Obj [(''success'', Bool True)]))
      (Arr [Num 1, Num 2, Num 3])) =
     [DeleteRecord ''activity_c'' (Obj [(''RecordIds'', Arr [Num 1])])] \<and>
   outcome (teacher_delete example_host
      (transport_returning (Obj [(''success'', Bool False), (''message'', Str ''Server error'')]))
      (Num 3)) = Inl (new_Error example_host (Str ''Server error'')) \<and>
   outcome (teacher_delete example_host
      (transport_throwing (new_Error example_host (Str ''Network Error''))) (Num 3)) =
     Inl (new_Error example_host (Str ''Network Error''))"
  by (simp add: delete_request parseInt_of_sequence teacher_delete_failure teacher_delete_rethrows)

text \<open>
  C7, amended. \<^verbatim>\<open>delete\<close> takes one identifier and sends exactly one entry in
  \<^verbatim>\<open>RecordIds\<close>: \<^verbatim>\<open>parseInt(id)\<close> for activities, the identifier unchanged for teachers.
  Transport failure comes in two forms. On a response whose \<^verbatim>\<open>success\<close> is not truthy,
  \<^verbatim>\<open>activityService.delete\<close> returns \<^verbatim>\<open>false\<close> after one error notification with the
  transport's message, and \<^verbatim>\<open>teacherService.delete\<close> throws an \<^verbatim>\<open>Error\<close> with that message.
  When the transport call throws (a value other than \<^verbatim>\<open>null\<close> and \<^verbatim>\<open>undefined\<close>),
  \<^verbatim>\<open>activityService.delete\<close> returns \<^verbatim>\<open>false\<close> after one notification, the fixed text
  \<^verbatim>\<open>Failed to delete activity\<close>, and \<^verbatim>\<open>teacherService.delete\<close> throws the same value again.
  When the envelope succeeds, \<^verbatim>\<open>activityService.delete\<close> returns \<^verbatim>\<open>true\<close> exactly when no
  record failed and at least one succeeded, after one success notification; with a failed
  record it returns \<^verbatim>\<open>false\<close> after one notification per failed record that has a message;
  with empty or absent results it returns \<^verbatim>\<open>false\<close> in silence.
  \<^verbatim>\<open>teacherService.delete\<close> never shows a notification; when no record failed it returns
  whether some record succeeded, and when a failed record carries a message it throws an
  \<^verbatim>\<open>Error\<close> with the first such message.
\<close>

theorem delete_outcomes:
  "requests (activity_delete h tr ident) =
     [DeleteRecord ''activity_c'' (Obj [(''RecordIds'', Arr [parseInt h ident])])] \<and>
   requests (teacher_delete h tr ident) =
     [DeleteRecord ''teacher_c'' (Obj [(''RecordIds'', Arr [ident])])] \<and>
   notifications (teacher_delete h tr ident) = [] \<and>
   (\<not> truthy (read_prop (Obj kvs) ''success'') \<longrightarrow>
      outcome (activity_delete h (transport_returning (Obj kvs)) ident) = Inr (Bool False) \<and>
      notifications (activity_delete h (transport_returning (Obj kvs)) ident) =
        [ToastError (read_prop (Obj kvs) ''message'')] \<and>
      outcome (teacher_delete h (transport_returning (Obj kvs)) ident) =
        Inl (new_Error h (read_prop (Obj kvs) ''message''))) \<and>
   (\<not> nullish e \<longrightarrow>
      outcome (activity_delete h (transport_throwing e) ident) = Inr (Bool False) \<and>
      notifications (activity_delete h (transport_throwing e) ident) =
        [ToastError (Str ''Failed to delete activity'')]) \<and>
   outcome (teacher_delete h (transport_throwing e) ident) = Inl e \<and>
   (truthy (read_prop (Obj kvs) ''success'') \<and> \<not> truthy (read_prop (Obj kvs) ''results'') \<longrightarrow>
      outcome (activity_delete h (transport_returning (Obj kvs)) ident) = Inr (Bool False) \<and>
      notifications (activity_delete h (transport_returning (Obj kvs)) ident) = []) \<and>
   (truthy (read_prop (Obj kvs) ''success'') \<and> read_prop (Obj kvs) ''results'' = Arr rs \<and>
    list_all (\<lambda>r. \<not> nullish r) rs \<longrightarrow>
      outcome (activity_delete h (transport_returning (Obj kvs)) ident) =
        Inr (Bool (failed_records rs = [] \<and> succeeded rs \<noteq> [])) \<and>
      notifications (activity_delete h (transport_returning (Obj kvs)) ident) =
        (if failed_records rs \<noteq> [] then concat (map spec_message_toasts (failed_records rs))
         else if succeeded rs \<noteq> [] then [ToastSuccess (Str ''Activity deleted successfully'')]
         else []) \<and>
      (failed_records rs = [] \<longrightarrow>
         outcome (teacher_delete h (transport_returning (Obj kvs)) ident) =
           Inr (Bool (succeeded rs \<noteq> []))) \<and>
      (\<forall>r rest. with_message (failed_records rs) = r # rest \<longrightarrow>
         outcome (teacher_delete h (transport_returning (Obj kvs)) ident) =
           Inl (new_Error h (read_prop r ''message''))))"
proof -
  have none: "with_message (failed_records rs) = []" if "failed_records rs = []"
    using that by (simp add: with_message_def)
  have t1: "outcome (teacher_delete h (transport_returning (Obj kvs)) ident) =
              Inr (Bool (succeeded rs \<noteq> []))"
    if "truthy (read_prop (Obj kvs) ''success'')" "read_prop (Obj kvs) ''results'' = Arr rs"
       "list_all (\<lambda>r. \<not> nullish r) rs" "failed_records rs = []"
    using teacher_delete_results[OF that(1,2,3)] none[OF that(4)] by simp
  have t2: "outcome (teacher_delete h (transport_returning (Obj kvs)) ident) =
              Inl (new_Error h (read_prop r ''message''))"
    if "truthy (read_prop (Obj kvs) ''success'')" "read_prop (Obj kvs) ''results'' = Arr rs"
       "list_all (\<lambda>r. \<not> nullish r) rs" "with_message (failed_records rs) = r # rest"
    for r rest
    using teacher_delete_results[OF that(1,2,3)] that(4) by simp
  show ?thesis
    using activity_delete_failure[where kvs = kvs and ident = ident and h = h]
      teacher_delete_failure[where kvs = kvs and ident = ident and h = h]
      activity_delete_no_results[where kvs = kvs and ident = ident and h = h]
      activity_delete_results[where kvs = kvs and rs = rs and ident = ident and h = h]
      activity_delete_throws[where e = e and ident = ident and h = h] t1 t2
    by (simp only: delete_request teacher_silent teacher_delete_rethrows simp_thms) blast
qed

theorem delete_outcomes_witness:
  "outcome (activity_delete example_host
      (transport_returning (Obj [(''success'', Bool False), (''message'', Str ''Server error'')]))
      (Num 3)) = Inr (Bool False) \<and>
   notifications (activity_delete example_host
      (transport_returning (Obj [(''success'', Bool False), (''message'', Str ''Server error'')]))
      (Num 3)) = [ToastError (Str ''Server error'')] \<and>
   outcome (activity_delete example_host (transport_throwing (Str ''Network Error'')) (Num 3)) =
     Inr (Bool False) \<and>
   notifications (activity_delete example_host (transport_throwing (Str ''Network Error'')) (Num 3)) =
     [ToastError (Str ''Failed to delete activity'')] \<and>
   outcome (teacher_delete example_host (transport_throwing (Str ''Network Error'')) (Num 3)) =
     Inl (Str ''Network Error'') \<and>
   outcome (activity_delete example_host (transport_returning (Obj [(''success'', Bool True)])) (Num 3)) =
     Inr (Bool False) \<and>
   outcome (activity_delete example_host
      (transport_returning
         (Obj [(''success'', Bool True), (''results'', Arr [Obj [(''success'', Bool True)]])]))
      (Num 3)) = Inr (Bool True) \<and>
   notifications (activity_delete example_host
      (transport_returning
         (Obj [(''success'', Bool True), (''results'', Arr [Obj [(''success'', Bool True)]])]))
      (Num 3)) = [ToastSuccess (Str ''Activity deleted successfully'')] \<and>
   outcome (teacher_delete example_host
      (transport_returning
         (Obj [(''success'', Bool True), (''results'', Arr [Obj [(''success'', Bool True)]])]))
      (Num 3)) = Inr (Bool True) \<and>
   outcome (activity_delete example_host
      (transport_returning
         (Obj [(''success'', Bool True),
               (''results'', Arr [Obj [(''success'', Bool False),
                                       (''message'', Str ''Record does not exist'')]])]))
      (Num 3)) = Inr (Bool False) \<and>
   notifications (activity_delete example_host
      (transport_returning
         (Obj [(''success'', Bool True),
               (''results'', Arr [Obj [(''success'', Bool False),
                                       (''message'', Str ''Record does not exist'')]])]))
      (Num 3)) = [ToastError (Str ''Record does not exist'')] \<and>
   outcome (teacher_delete example_host
      (transport_returning
         (Obj [(''success'', Bool True),
               (''results'', Arr [Obj [(''success'', Bool False),
                                       (''message'', Str ''Record does not exist'')]])]))
      (Num 3)) = Inl (new_Error example_host (Str ''Record does not exist''))"
  using
    delete_outcomes
      [where h = example_host and tr = "transport_returning (Obj [])" and ident = "Num 3"
         and e = "Str ''Network Error''"
         and kvs = "[(''success'', Bool False), (''message'', Str ''Server error'')]"
         and rs = "[]"]
    delete_outcomes
      [where h = example_host and tr = "transport_returning (Obj [])" and ident = "Num 3"
         and e = "Str ''Network Error''" and kvs = "[(''success'', Bool True)]" and rs = "[]"]
    delete_outcomes
      [where h = example_host and tr = "transport_returning (Obj [])" and ident = "Num 3"
         and e = "Str ''Network Error''"
         and kvs = "[(''success'', Bool True), (''results'', Arr [Obj [(''success'', Bool True)]])]"
         and rs = "[Obj [(''success'', Bool True)]]"]
    delete_outcomes
      [where h = example_host and tr = "transport_returning (Obj [])" and ident = "Num 3"
         and e = "Str ''Network Error''"
         and kvs = "[(''success'', Bool True),
                     (''results'', Arr [Obj [(''success'', Bool False),
                                             (''message'', Str ''Record does not exist'')]])]"
         and rs = "[Obj [(''success'', Bool False), (''message'', Str ''Record does not exist'')]]"]
  by (simp add: failed_records_def succeeded_def with_message_def spec_message_toasts_def)

text \<open>
  C3: a failed record must never be dropped in silence. teacherService misses the case
  the claim names. The remote rejects the record of \<^verbatim>\<open>create\<close> with a field-level error
  and no record-level message: the call shows nothing, throws nothing and returns
  \<^verbatim>\<open>undefined\<close>, like a call that had nothing to report. In \<^verbatim>\<open>delete\<close>, a failed record
  without a message next to a succeeded one gives \<^verbatim>\<open>true\<close>. The callback of activityService
  reads \<^verbatim>\<open>record.errors\<close> and its methods return the failure value whenever a record failed.
\<close>

theorem teacher_create_drops_field_errors:
  "outcome (teacher_create example_host
      (transport_returning
         (Obj [(''success'', Bool True),
               (''results'',
                Arr [Obj [(''success'', Bool False),
                          (''errors'', Arr [Obj [(''fieldLabel'', Str ''Email''),
                                                 (''message'', Str ''Email is required'')]])]])]))
      (Obj [(''name_c'', Str ''Ann'')])) = Inr Undefined \<and>
   notifications (teacher_create example_host
      (transport_returning
         (Obj [(''success'', Bool True),
               (''results'',
                Arr [Obj [(''success'', Bool False),
                          (''errors'', Arr [Obj [(''fieldLabel'', Str ''Email''),
                                                 (''message'', Str ''Email is required'')]])]])]))
      (Obj [(''name_c'', Str ''Ann'')])) = [] \<and>
   outcome (teacher_delete example_host
      (transport_returning
         (Obj [(''success'', Bool True),
               (''results'', Arr [Obj [(''success'', Bool True)], Obj [(''success'', Bool False)]])]))
      (Num 3)) = Inr (Bool True)"
  by (simp add: notifications_def outcome_def teacher_create_def teacher_delete_def
      transport_returning_def js_prims Let_def is_success_def is_failure_def js_filter_def
      teacher_throw_failed_def first_elem_def js_opt_def)

end
